theory Spec2Isabelle
  imports Complex_Main
begin

section \<open>Values shared by the element manager\<close>

text \<open>
  The class \<open>MapManager\<close> of \<open>mapManager.ts\<close> and the drawing helpers of
  \<open>drawFunc.ts\<close> it calls, with the manager's fields as a record that every method
  takes and returns.

  Every THREE object the manager creates is identified by a reference (a natural
  number handed out from \<open>nextRef\<close>), so that \<open>indexOf\<close>, \<open>remove\<close> and
  \<open>getRoot() === object3D\<close> compare identities as the JavaScript does. An element
  payload is a JavaScript object of the caller's: the manager writes \<open>object3D\<close> and
  \<open>data\<close> into it and stores the object itself, so the objects live in a store
  (\<open>elementObjects\<close>) and the element map holds references into it.
  JavaScript numbers are modelled as exact reals: the steps 0.01, 0.003 and 0.02 add up
  without rounding, which can move the frame on which a threshold is crossed by one but
  not the values copied at the end. The property \<open>_s\<close> of a ring may also be
  \<open>undefined\<close> or \<open>NaN\<close>, which is what \<open>jsnum\<close> records.
\<close>

type_synonym objRef = nat

datatype jsnum = Undefined | NaN | Num real

text \<open>\<open>x + c\<close> for a number literal \<open>c\<close>: \<open>undefined + c\<close> and \<open>NaN + c\<close> are \<open>NaN\<close>.\<close>

fun jsAdd :: "jsnum \<Rightarrow> real \<Rightarrow> jsnum" where
  "jsAdd (Num x) c = Num (x + c)"
| "jsAdd Undefined c = NaN"
| "jsAdd NaN c = NaN"

text \<open>\<open>c * x\<close> and \<open>c - x\<close> for a number literal \<open>c\<close>.\<close>

fun jsMul :: "real \<Rightarrow> jsnum \<Rightarrow> jsnum" where
  "jsMul c (Num x) = Num (c * x)"
| "jsMul c Undefined = NaN"
| "jsMul c NaN = NaN"

fun jsSub :: "real \<Rightarrow> jsnum \<Rightarrow> jsnum" where
  "jsSub c (Num x) = Num (c - x)"
| "jsSub c Undefined = NaN"
| "jsSub c NaN = NaN"

text \<open>\<open>x <= c\<close>: every comparison with \<open>NaN\<close> (and so with \<open>undefined\<close>) is false.\<close>

fun jsLe :: "jsnum \<Rightarrow> real \<Rightarrow> bool" where
  "jsLe (Num x) c = (x \<le> c)"
| "jsLe Undefined c = False"
| "jsLe NaN c = False"

subsection \<open>A JavaScript \<open>Map\<close> as an insertion-ordered association list\<close>

fun mapGet :: "'k \<Rightarrow> ('k \<times> 'v) list \<Rightarrow> 'v option" where
  "mapGet k [] = None"
| "mapGet k ((k', v) # m) = (if k' = k then Some v else mapGet k m)"

definition mapHas :: "'k \<Rightarrow> ('k \<times> 'v) list \<Rightarrow> bool" where
  "mapHas k m = (mapGet k m \<noteq> None)"

text \<open>\<open>set\<close> overwrites the value of a key already present, in place, and appends a new key.\<close>

fun mapSet :: "'k \<Rightarrow> 'v \<Rightarrow> ('k \<times> 'v) list \<Rightarrow> ('k \<times> 'v) list" where
  "mapSet k v [] = [(k, v)]"
| "mapSet k v ((k', v') # m) = (if k' = k then (k, v) # m else (k', v') # mapSet k v m)"

definition mapDelete :: "'k \<Rightarrow> ('k \<times> 'v) list \<Rightarrow> ('k \<times> 'v) list" where
  "mapDelete k m = filter (\<lambda>p. fst p \<noteq> k) m"

definition mapKeys :: "('k \<times> 'v) list \<Rightarrow> 'k list" where
  "mapKeys m = map fst m"

text \<open>\<open>xs.splice(xs.findIndex(p), 1)\<close> when the index is \<open>> -1\<close>: drop the first match.\<close>

fun spliceFirst :: "('a \<Rightarrow> bool) \<Rightarrow> 'a list \<Rightarrow> 'a list" where
  "spliceFirst p [] = []"
| "spliceFirst p (x # xs) = (if p x then xs else x # spliceFirst p xs)"

section \<open>Map elements\<close>

datatype elemType = Label | Spot | Model | Line | Bubble

text \<open>What \<open>element.data\<close> holds: nothing, \<open>{circle, ring}\<close> or \<open>{flyLine, flySpot}\<close>.\<close>

datatype elementData = NoData | SpotData objRef objRef | LineData objRef objRef

text \<open>A reference to an element object in the store of element objects.\<close>

type_synonym elemRef = nat

record MapElement =
  elemId :: string
  etype :: elemType
  position :: "real list"
  labelText :: string
  modelPath :: string
  modelScale :: "(real \<times> real \<times> real) option"
  animation :: bool
  startPosition :: "real list"
  endPosition :: "real list"
  elemData :: elementData
  object3D :: "objRef option"

text \<open>The ring of a spot marker: its identity, \<open>_s\<close>, \<open>scale\<close> and \<open>material.opacity\<close>.\<close>

record RingMesh =
  ringRef :: objRef
  ring_s :: jsnum
  ringScale :: "jsnum \<times> jsnum \<times> jsnum"
  ringOpacity :: jsnum

text \<open>The moving marker of a line: identity, \<open>_s\<close> and the parameter last given to \<open>getPointAt\<close>.\<close>

record FlySpot =
  flyRef :: objRef
  fly_s :: real
  flyAt :: real

record Mixer =
  mixerRoot :: objRef
  mixerTime :: real

text \<open>What the glTF loader hands to its callbacks: a scene with so many animation clips, or an error.\<close>

datatype loadResult = LoadError | Loaded nat

datatype promise = Resolved | Rejected | Pending

section \<open>The region scene and its materials\<close>

type_synonym color = "real \<times> real \<times> real"

datatype matKind = MeshPhongMaterial | OtherMaterial

record Material =
  matKind :: matKind
  matColor :: color
  matEmissive :: color

text \<open>\<open>mesh.material\<close> is one material or an array of them; an entry may be null.\<close>

datatype meshMaterial = MatArray "nat option list" | MatSingle "nat option"

record Mesh =
  meshRef :: objRef
  material :: meshMaterial
  isChangeColor :: bool

datatype propVal = PUndef | PStr string | PNum int

record Properties =
  p_name :: propVal
  p_NAME :: propVal
  p_adcode :: propVal
  p_code :: propVal

text \<open>
  A scene node: its \<open>customProperties\<close> when it has them, the mesh when the node is a
  \<open>THREE.Mesh\<close>, and its children. Materials live in a store (\<open>materials\<close> of the
  manager) and a mesh names them by reference, since highlighting changes a material in
  place and two meshes may share one. The containers that the constructor adds under
  \<open>mapObject3D\<close> are kept apart from this tree: the objects the drawing helpers put
  there carry neither \<open>customProperties\<close> nor \<open>userData.isChangeColor\<close>, so the
  traversals of the highlight methods pass over them.
\<close>

datatype Object3D = Node "Properties option" "Mesh option" "Object3D list"

record HighlightInfo =
  meshes :: "Mesh list"
  originalMaterials :: "Material list"
  timeoutId :: nat

text \<open>
  The closure \<open>animate\<close> of one colour transition, with its captured variables. The
  closure of the single-material branch reads \<open>mesh.material\<close> on every call; no
  method assigns that property, so it is the material captured at the start.
\<close>

record Tween =
  twMaterial :: nat
  startColor :: color
  endColor :: color
  startEmissive :: color
  endEmissive :: color
  tween_t :: real

section \<open>The manager\<close>

record MapManager =
  mapObject3D :: Object3D
  materials :: "nat \<Rightarrow> Material"
  labelsContainer :: "objRef list"
  spotsContainer :: "objRef list"
  modelsContainer :: "objRef list"
  linesContainer :: "objRef list"
  elementObjects :: "elemRef \<Rightarrow> MapElement"
  elements :: "(string \<times> elemRef) list"
  animatedSpots :: "RingMesh list"
  flySpots :: "FlySpot list"
  modelMixers :: "Mixer list"
  highlightedRegions :: "(string \<times> HighlightInfo) list"
  timers :: "(nat \<times> string \<times> nat) list"
  nextTimer :: nat
  frames :: "Tween list"
  disposed :: "objRef list"
  nextRef :: objRef

text \<open>A slot of the store in which no element object has been created yet.\<close>

definition blankElement :: MapElement where
  "blankElement =
     \<lparr> elemId = [], etype = Label, position = [], labelText = [], modelPath = [],
       modelScale = None, animation = False, startPosition = [], endPosition = [],
       elemData = NoData, object3D = None \<rparr>"

text \<open>
  The constructor: empty containers and maps over the scene it is given, and no element
  object created yet. \<open>timers\<close> are the pending \<open>setTimeout\<close> calls (handle, region
  name, delay), \<open>frames\<close> the callbacks waiting for the next animation frame,
  \<open>disposed\<close> the subtrees handed to \<open>disposeObject3D\<close>.
\<close>

definition newMapManager :: "Object3D \<Rightarrow> (nat \<Rightarrow> Material) \<Rightarrow> MapManager" where
  "newMapManager scene mats =
     \<lparr> mapObject3D = scene, materials = mats,
       labelsContainer = [], spotsContainer = [], modelsContainer = [], linesContainer = [],
       elementObjects = (\<lambda>r. blankElement),
       elements = [], animatedSpots = [], flySpots = [], modelMixers = [],
       highlightedRegions = [], timers = [], nextTimer = 0, frames = [],
       disposed = [], nextRef = 0 \<rparr>"

text \<open>
  What the caller does to an element object: create it, or assign to its fields
  (\<open>r\<close> then holds \<open>e\<close>).
\<close>

definition writeElement :: "elemRef \<Rightarrow> MapElement \<Rightarrow> MapManager \<Rightarrow> MapManager" where
  "writeElement r e s = s\<lparr> elementObjects := (elementObjects s)(r := e) \<rparr>"

subsection \<open>Drawing helpers\<close>

text \<open>
  \<open>draw2dLabel\<close>, \<open>draw2dBubble\<close> and \<open>drawSpot\<close> return an object only
  \<open>if (coord && coord.length)\<close>; the argument \<open>r\<close> is the next free reference.
\<close>

definition draw2dLabel :: "real list \<Rightarrow> string \<Rightarrow> objRef \<Rightarrow> objRef option" where
  "draw2dLabel coord proviceName r = (if coord \<noteq> [] then Some r else None)"

definition draw2dBubble :: "real list \<Rightarrow> string \<Rightarrow> objRef \<Rightarrow> objRef option" where
  "draw2dBubble coord txt r = (if coord \<noteq> [] then Some r else None)"

text \<open>The ring is built with \<open>new THREE.Mesh\<close>: scale 1, opacity 1, and no \<open>_s\<close> property.\<close>

definition drawSpot :: "real list \<Rightarrow> objRef \<Rightarrow> (objRef \<times> RingMesh) option" where
  "drawSpot coord r =
     (if coord \<noteq> [] then
        Some (r, \<lparr> ringRef = r + 1, ring_s = Undefined,
                   ringScale = (Num 1, Num 1, Num 1), ringOpacity = Num 1 \<rparr>)
      else None)"

text \<open>\<open>drawflySpot\<close> sets \<open>aMesh._s = 0\<close>.\<close>

definition drawflySpot :: "objRef \<Rightarrow> FlySpot" where
  "drawflySpot r = \<lparr> flyRef = r, fly_s = 0, flyAt = 0 \<rparr>"

definition drawLineBetween2Spot :: "real list \<Rightarrow> real list \<Rightarrow> objRef \<Rightarrow> objRef \<times> FlySpot" where
  "drawLineBetween2Spot coordStart coordEnd r = (r + 1, drawflySpot r)"

subsection \<open>Adding elements\<close>

text \<open>
  Each add method is given the caller's object \<open>element\<close>. When the helper draws, it
  assigns \<open>element.object3D\<close> (and \<open>element.data\<close>) and stores that same object under
  \<open>element.id\<close>.
\<close>

definition addLabel :: "elemRef \<Rightarrow> MapManager \<Rightarrow> promise \<times> MapManager" where
  "addLabel element s =
     (let e = elementObjects s element in
      case draw2dLabel (position e) (labelText e) (nextRef s) of
        Some labelObject \<Rightarrow>
          (Resolved,
           s\<lparr> nextRef := nextRef s + 1,
              elementObjects := (elementObjects s)(element := e\<lparr> object3D := Some labelObject \<rparr>),
              labelsContainer := labelsContainer s @ [labelObject],
              elements := mapSet (elemId e) element (elements s) \<rparr>)
      | None \<Rightarrow> (Resolved, s))"

definition addBubble :: "elemRef \<Rightarrow> MapManager \<Rightarrow> promise \<times> MapManager" where
  "addBubble element s =
     (let e = elementObjects s element in
      case draw2dBubble (position e) (labelText e) (nextRef s) of
        Some bubbleObject \<Rightarrow>
          (Resolved,
           s\<lparr> nextRef := nextRef s + 1,
              elementObjects := (elementObjects s)(element := e\<lparr> object3D := Some bubbleObject \<rparr>),
              labelsContainer := labelsContainer s @ [bubbleObject],
              elements := mapSet (elemId e) element (elements s) \<rparr>)
      | None \<Rightarrow> (Resolved, s))"

definition addSpot :: "elemRef \<Rightarrow> MapManager \<Rightarrow> promise \<times> MapManager" where
  "addSpot element s =
     (let e = elementObjects s element in
      case drawSpot (position e) (nextRef s) of
        Some (circle, ring) \<Rightarrow>
          (let container = nextRef s + 2 in
           (Resolved,
            s\<lparr> nextRef := nextRef s + 3,
               elementObjects := (elementObjects s)
                 (element := e\<lparr> object3D := Some container,
                                elemData := SpotData circle (ringRef ring) \<rparr>),
               spotsContainer := spotsContainer s @ [container],
               elements := mapSet (elemId e) element (elements s),
               animatedSpots := animatedSpots s @ [ring] \<rparr>))
      | None \<Rightarrow> (Resolved, s))"

text \<open>
  \<open>addModel\<close> only starts the load: the promise stays pending and the manager is not
  touched until the loader calls back. \<open>gltfOnLoad\<close> is the success callback, given the
  number of animation clips of the loaded scene; it reads the element object as it is
  when the loader calls. The position, scale and red materials it gives the clone are
  properties of the clone alone and are not recorded. \<open>gltfOnError\<close> is the error
  callback.
\<close>

definition addModel :: "elemRef \<Rightarrow> MapManager \<Rightarrow> promise \<times> MapManager" where
  "addModel element s = (Pending, s)"

definition gltfOnLoad :: "elemRef \<Rightarrow> nat \<Rightarrow> MapManager \<Rightarrow> promise \<times> MapManager" where
  "gltfOnLoad element nAnimations s =
     (let e = elementObjects s element;
          clonedModel = nextRef s;
          mixers = (if animation e \<and> nAnimations > 0
                    then modelMixers s @ [\<lparr> mixerRoot = clonedModel, mixerTime = 0 \<rparr>]
                    else modelMixers s)
      in (Resolved,
          s\<lparr> nextRef := nextRef s + 1,
             modelMixers := mixers,
             elementObjects := (elementObjects s)(element := e\<lparr> object3D := Some clonedModel \<rparr>),
             modelsContainer := modelsContainer s @ [clonedModel],
             elements := mapSet (elemId e) element (elements s) \<rparr>))"

definition gltfOnError :: "elemRef \<Rightarrow> MapManager \<Rightarrow> promise \<times> MapManager" where
  "gltfOnError element s = (Rejected, s)"

definition addLine :: "elemRef \<Rightarrow> MapManager \<Rightarrow> promise \<times> MapManager" where
  "addLine element s =
     (let e = elementObjects s element in
      case drawLineBetween2Spot (startPosition e) (endPosition e) (nextRef s) of
        (flyLine, flySpot) \<Rightarrow>
          (let container = nextRef s + 2 in
           (Resolved,
            s\<lparr> nextRef := nextRef s + 3,
               elementObjects := (elementObjects s)
                 (element := e\<lparr> object3D := Some container,
                                elemData := LineData flyLine (flyRef flySpot) \<rparr>),
               linesContainer := linesContainer s @ [container],
               elements := mapSet (elemId e) element (elements s),
               flySpots := flySpots s @ [flySpot] \<rparr>)))"

text \<open>
  The \<open>switch\<close> of \<open>addElements\<close>, for one element. Its \<open>default\<close> branch is not
  reached: \<open>type\<close> is one of the five literals.
\<close>

definition addElement :: "elemRef \<Rightarrow> MapManager \<Rightarrow> promise \<times> MapManager" where
  "addElement element s =
     (case etype (elementObjects s element) of
        Label \<Rightarrow> addLabel element s
      | Bubble \<Rightarrow> addBubble element s
      | Spot \<Rightarrow> addSpot element s
      | Model \<Rightarrow> addModel element s
      | Line \<Rightarrow> addLine element s)"

text \<open>
  \<open>addElements\<close> maps the switch over the batch, which runs every executor at once, in
  order. It returns the promises of the elements and the manager as the call leaves it;
  the loads of the model elements are still out.
\<close>

fun addElements :: "elemRef list \<Rightarrow> MapManager \<Rightarrow> promise list \<times> MapManager" where
  "addElements [] s = ([], s)"
| "addElements (element # rest) s =
     (case addElement element s of
        (p, s') \<Rightarrow> (case addElements rest s' of (ps, s'') \<Rightarrow> (p # ps, s'')))"

text \<open>
  The loader calls back once per model element, in any order: an event is the element
  and what its load gave.
\<close>

definition loadCallback :: "elemRef \<times> loadResult \<Rightarrow> MapManager \<Rightarrow> promise \<times> MapManager" where
  "loadCallback ev s =
     (case snd ev of
        Loaded nAnimations \<Rightarrow> gltfOnLoad (fst ev) nAnimations s
      | LoadError \<Rightarrow> gltfOnError (fst ev) s)"

fun loadCallbacks :: "(elemRef \<times> loadResult) list \<Rightarrow> MapManager \<Rightarrow> promise list \<times> MapManager" where
  "loadCallbacks [] s = ([], s)"
| "loadCallbacks (ev # evs) s =
     (case loadCallback ev s of
        (p, s') \<Rightarrow> (case loadCallbacks evs s' of (ps, s'') \<Rightarrow> (p # ps, s'')))"

subsection \<open>Removing elements\<close>

definition removeElement :: "string \<Rightarrow> MapManager \<Rightarrow> bool \<times> MapManager" where
  "removeElement i s =
     (case mapGet i (elements s) of
        None \<Rightarrow> (False, s)
      | Some r \<Rightarrow>
          (let element = elementObjects s r in
           case object3D element of
             None \<Rightarrow> (False, s)
           | Some obj \<Rightarrow>
               (let s1 =
                  (case etype element of
                     Bubble \<Rightarrow> s\<lparr> labelsContainer := remove1 obj (labelsContainer s) \<rparr>
                   | Label \<Rightarrow> s\<lparr> labelsContainer := remove1 obj (labelsContainer s) \<rparr>
                   | Spot \<Rightarrow>
                       (case elemData element of
                          SpotData circle ring \<Rightarrow>
                            s\<lparr> spotsContainer := remove1 obj (spotsContainer s),
                               animatedSpots :=
                                 spliceFirst (\<lambda>m. ringRef m = ring) (animatedSpots s) \<rparr>
                        | _ \<Rightarrow> s\<lparr> spotsContainer := remove1 obj (spotsContainer s) \<rparr>)
                   | Model \<Rightarrow>
                       s\<lparr> modelsContainer := remove1 obj (modelsContainer s),
                          modelMixers :=
                            spliceFirst (\<lambda>mixer. mixerRoot mixer = obj) (modelMixers s) \<rparr>
                   | Line \<Rightarrow>
                       (case elemData element of
                          LineData flyLine flySpot \<Rightarrow>
                            s\<lparr> linesContainer := remove1 obj (linesContainer s),
                               flySpots :=
                                 spliceFirst (\<lambda>m. flyRef m = flySpot) (flySpots s) \<rparr>
                        | _ \<Rightarrow> s\<lparr> linesContainer := remove1 obj (linesContainer s) \<rparr>))
                in (True, s1\<lparr> disposed := disposed s1 @ [obj],
                              elements := mapDelete i (elements s1) \<rparr>))))"

fun removeElements :: "string list \<Rightarrow> MapManager \<Rightarrow> MapManager" where
  "removeElements [] s = s"
| "removeElements (i # ids) s = removeElements ids (snd (removeElement i s))"

text \<open>\<open>getElement\<close> returns the stored object; the model gives the object as it then is.\<close>

definition getElement :: "string \<Rightarrow> MapManager \<Rightarrow> MapElement option" where
  "getElement i s = map_option (elementObjects s) (mapGet i (elements s))"

subsection \<open>Clearing\<close>

definition isDigit :: "char \<Rightarrow> bool" where
  "isDigit c = (c \<in> set ''0123456789'')"

text \<open>\<open>id.match(/^label-(\d+)$/)\<close>: the captured digits, when the whole id matches.\<close>

definition matchLabel :: "string \<Rightarrow> string option" where
  "matchLabel i =
     (if take 6 i = ''label-'' \<and> drop 6 i \<noteq> [] \<and> list_all isDigit (drop 6 i)
      then Some (drop 6 i) else None)"

definition digitVal :: "char \<Rightarrow> nat" where
  "digitVal c = of_char c - 48"

text \<open>\<open>parseInt\<close> of a string of decimal digits.\<close>

definition parseInt :: "string \<Rightarrow> nat" where
  "parseInt ds = foldl (\<lambda>n c. 10 * n + digitVal c) 0 ds"

text \<open>The filter of \<open>clearAllElements\<close>: true for the ids to remove.\<close>

definition toRemove :: "string \<Rightarrow> bool" where
  "toRemove i =
     (case matchLabel i of
        Some ds \<Rightarrow> (let num = parseInt ds in num < 0 \<or> num > 31)
      | None \<Rightarrow> True)"

definition clearAllElements :: "MapManager \<Rightarrow> MapManager" where
  "clearAllElements s = removeElements (filter toRemove (mapKeys (elements s))) s"

subsection \<open>Animation\<close>

text \<open>One ring in the loop of \<open>updateAnimations\<close>.\<close>

definition stepRing :: "RingMesh \<Rightarrow> RingMesh" where
  "stepRing mesh =
     (let s1 = jsAdd (ring_s mesh) 0.01;
          mesh1 = mesh\<lparr> ring_s := s1, ringScale := (jsMul 1 s1, jsMul 1 s1, jsMul 1 s1) \<rparr>
      in if jsLe s1 2 then mesh1\<lparr> ringOpacity := jsSub 2 s1 \<rparr>
         else mesh1\<lparr> ring_s := Num 1 \<rparr>)"

text \<open>\<open>x % 1\<close> for the non-negative \<open>_s\<close> of a fly spot is its fractional part.\<close>

definition stepFly :: "FlySpot \<Rightarrow> FlySpot" where
  "stepFly mesh = (let s1 = fly_s mesh + 0.003 in mesh\<lparr> fly_s := s1, flyAt := frac s1 \<rparr>)"

definition updateAnimations :: "real \<Rightarrow> MapManager \<Rightarrow> MapManager" where
  "updateAnimations delta s =
     s\<lparr> modelMixers := map (\<lambda>mixer. mixer\<lparr> mixerTime := mixerTime mixer + delta \<rparr>) (modelMixers s),
        animatedSpots := map stepRing (animatedSpots s),
        flySpots := map stepFly (flySpots s) \<rparr>"

section \<open>Region highlighting\<close>

text \<open>
  \<open>Color.setHex\<close>: the three bytes of the hex value as components in 0..1. The
  conversion to the working colour space, the same on every call, is left out.
\<close>

definition setHex :: "nat \<Rightarrow> color" where
  "setHex h = (real (h div 65536 mod 256) / 255, real (h div 256 mod 256) / 255, real (h mod 256) / 255)"

text \<open>\<open>Color.lerpColors(c1, c2, alpha)\<close>.\<close>

fun lerpColors :: "color \<Rightarrow> color \<Rightarrow> real \<Rightarrow> color" where
  "lerpColors (r1, g1, b1) (r2, g2, b2) alpha =
     (r1 + (r2 - r1) * alpha, g1 + (g2 - g1) * alpha, b1 + (b2 - b1) * alpha)"

text \<open>\<open>Object3D.traverse\<close> visits the node itself and then its descendants, depth first.\<close>

fun traverse :: "Object3D \<Rightarrow> Object3D list" where
  "traverse (Node props mesh children) = Node props mesh children # concat (map traverse children)"

fun nodeProps :: "Object3D \<Rightarrow> Properties option" where
  "nodeProps (Node props mesh children) = props"

fun nodeMesh :: "Object3D \<Rightarrow> Mesh option" where
  "nodeMesh (Node props mesh children) = mesh"

text \<open>
  The test of \<open>findRegionByName\<close>: strict equality of the string \<open>regionName\<close> with one
  of four fields, so only a string-valued field can match.
\<close>

definition matchesRegion :: "string \<Rightarrow> Object3D \<Rightarrow> bool" where
  "matchesRegion regionName child =
     (case nodeProps child of
        None \<Rightarrow> False
      | Some properties \<Rightarrow>
          p_name properties = PStr regionName \<or> p_NAME properties = PStr regionName \<or>
          p_adcode properties = PStr regionName \<or> p_code properties = PStr regionName)"

text \<open>Every match overwrites \<open>targetRegion\<close>, so the last one visited is returned.\<close>

definition findRegionByName :: "string \<Rightarrow> Object3D \<Rightarrow> Object3D option" where
  "findRegionByName regionName scene =
     fold (\<lambda>child targetRegion. if matchesRegion regionName child then Some child else targetRegion)
          (traverse scene) None"

text \<open>The meshes \<open>highlightRegion\<close> collects: \<open>child instanceof THREE.Mesh && child.userData.isChangeColor\<close>.\<close>

definition collectMeshes :: "Object3D \<Rightarrow> Mesh list" where
  "collectMeshes targetRegion =
     concat (map (\<lambda>child. case nodeMesh child of
                             Some mesh \<Rightarrow> (if isChangeColor mesh then [mesh] else [])
                           | None \<Rightarrow> [])
                 (traverse targetRegion))"

text \<open>
  The clones pushed for one mesh: one per non-null entry of a material array, or the
  single material.
\<close>

definition meshOriginals :: "(nat \<Rightarrow> Material) \<Rightarrow> Mesh \<Rightarrow> Material list" where
  "meshOriginals mats child =
     (case material child of
        MatArray ms \<Rightarrow> concat (map (\<lambda>mat. case mat of Some r \<Rightarrow> [mats r] | None \<Rightarrow> []) ms)
      | MatSingle (Some r) \<Rightarrow> [mats r]
      | MatSingle None \<Rightarrow> [])"

text \<open>
  The material that \<open>applyHighlightMaterial\<close> and \<open>restoreRegionMaterial\<close> work on:
  entry 0 of an array (\<open>material && index === 0\<close>), or the single material.
\<close>

definition topMaterial :: "Mesh \<Rightarrow> nat option" where
  "topMaterial mesh =
     (case material mesh of
        MatArray [] \<Rightarrow> None
      | MatArray (m # ms) \<Rightarrow> m
      | MatSingle m \<Rightarrow> m)"

definition highlightColor :: color where
  "highlightColor = setHex 0xFFD700"

definition highlightEmissive :: color where
  "highlightEmissive = setHex 0x444400"

fun applyHighlightMaterial :: "Mesh list \<Rightarrow> (nat \<Rightarrow> Material) \<Rightarrow> (nat \<Rightarrow> Material)" where
  "applyHighlightMaterial [] mats = mats"
| "applyHighlightMaterial (mesh # rest) mats =
     applyHighlightMaterial rest
       (case topMaterial mesh of
          Some r \<Rightarrow>
            (if matKind (mats r) = MeshPhongMaterial
             then mats(r := (mats r)\<lparr> matColor := highlightColor, matEmissive := highlightEmissive \<rparr>)
             else mats)
        | None \<Rightarrow> mats)"

text \<open>
  One call of the closure \<open>animate\<close>: advance \<open>t\<close> by 0.02; at 1 or beyond copy the end
  colours and stop, otherwise interpolate and ask for another animation frame.
\<close>

definition animate :: "Tween \<Rightarrow> MapManager \<Rightarrow> MapManager" where
  "animate tw s =
     (let t = tween_t tw + 0.02; r = twMaterial tw in
      if t \<ge> 1 then
        s\<lparr> materials := (materials s)(r := (materials s r)\<lparr> matColor := endColor tw,
                                                           matEmissive := endEmissive tw \<rparr>) \<rparr>
      else
        s\<lparr> materials := (materials s)(r := (materials s r)
                            \<lparr> matColor := lerpColors (startColor tw) (endColor tw) t,
                              matEmissive := lerpColors (startEmissive tw) (endEmissive tw) t \<rparr>),
           frames := frames s @ [tw\<lparr> tween_t := t \<rparr>] \<rparr>)"

text \<open>The browser runs the callbacks queued for a frame; those they queue wait for the next.\<close>

definition runFrame :: "MapManager \<Rightarrow> MapManager" where
  "runFrame s = fold animate (frames s) (s\<lparr> frames := [] \<rparr>)"

fun runFrames :: "nat \<Rightarrow> MapManager \<Rightarrow> MapManager" where
  "runFrames 0 s = s"
| "runFrames (Suc n) s = runFrames n (runFrame s)"

text \<open>
  The loop of \<open>restoreRegionMaterial\<close> over the meshes, with its counter
  \<open>materialIndex\<close>: a transition starts only when the mesh's material and the snapshot
  at the counter are both Phong materials, and the counter advances once per mesh.
\<close>

fun restoreMeshes :: "Mesh list \<Rightarrow> Material list \<Rightarrow> nat \<Rightarrow> MapManager \<Rightarrow> MapManager" where
  "restoreMeshes [] originals materialIndex s = s"
| "restoreMeshes (mesh # rest) originals materialIndex s =
     (case topMaterial mesh of
        Some r \<Rightarrow>
          (if materialIndex < length originals then
             (let originalMaterial = originals ! materialIndex;
                  s1 = (if matKind (materials s r) = MeshPhongMaterial \<and>
                           matKind originalMaterial = MeshPhongMaterial
                        then animate \<lparr> twMaterial = r,
                                       startColor = matColor (materials s r),
                                       endColor = matColor originalMaterial,
                                       startEmissive = matEmissive (materials s r),
                                       endEmissive = matEmissive originalMaterial,
                                       tween_t = 0 \<rparr> s
                        else s)
              in restoreMeshes rest originals (materialIndex + 1) s1)
           else restoreMeshes rest originals materialIndex s)
      | None \<Rightarrow> restoreMeshes rest originals materialIndex s)"

definition restoreRegionMaterial :: "string \<Rightarrow> MapManager \<Rightarrow> MapManager" where
  "restoreRegionMaterial regionName s =
     (case mapGet regionName (highlightedRegions s) of
        None \<Rightarrow> s
      | Some highlightInfo \<Rightarrow>
          (let s1 = restoreMeshes (meshes highlightInfo) (originalMaterials highlightInfo) 0 s
           in s1\<lparr> highlightedRegions := mapDelete regionName (highlightedRegions s1) \<rparr>))"

definition clearTimeout :: "nat \<Rightarrow> MapManager \<Rightarrow> MapManager" where
  "clearTimeout handle s = s\<lparr> timers := filter (\<lambda>t. fst t \<noteq> handle) (timers s) \<rparr>"

definition clearRegionHighlight :: "string \<Rightarrow> MapManager \<Rightarrow> bool \<times> MapManager" where
  "clearRegionHighlight regionName s =
     (case mapGet regionName (highlightedRegions s) of
        None \<Rightarrow> (False, s)
      | Some highlightInfo \<Rightarrow>
          (True, restoreRegionMaterial regionName (clearTimeout (timeoutId highlightInfo) s)))"

definition highlightRegion :: "string \<Rightarrow> nat \<Rightarrow> MapManager \<Rightarrow> bool \<times> MapManager" where
  "highlightRegion regionName duration s =
     (let s0 = (if mapHas regionName (highlightedRegions s)
                then snd (clearRegionHighlight regionName s) else s)
      in case findRegionByName regionName (mapObject3D s0) of
           None \<Rightarrow> (False, s0)
         | Some targetRegion \<Rightarrow>
             (let ms = collectMeshes targetRegion;
                  originals = concat (map (meshOriginals (materials s0)) ms)
              in if ms = [] then (False, s0)
                 else
                   (let handle = nextTimer s0 in
                    (True,
                     s0\<lparr> materials := applyHighlightMaterial ms (materials s0),
                         timers := timers s0 @ [(handle, regionName, duration)],
                         nextTimer := nextTimer s0 + 1,
                         highlightedRegions :=
                           mapSet regionName
                             \<lparr> meshes = ms, originalMaterials = originals, timeoutId = handle \<rparr>
                             (highlightedRegions s0) \<rparr>))))"

text \<open>
  A pending timer comes due: the browser drops it and runs its callback, which is
  \<open>restoreRegionMaterial\<close> of the region it was set for.
\<close>

definition fireTimer :: "nat \<Rightarrow> MapManager \<Rightarrow> MapManager" where
  "fireTimer handle s =
     (case find (\<lambda>t. fst t = handle) (timers s) of
        None \<Rightarrow> s
      | Some (h, regionName, duration) \<Rightarrow> restoreRegionMaterial regionName (clearTimeout handle s))"

definition getHighlightedRegions :: "MapManager \<Rightarrow> string list" where
  "getHighlightedRegions s = mapKeys (highlightedRegions s)"

section \<open>Awaiting a batch, and the invariant of the element map\<close>

text \<open>
  \<open>await addElements(es)\<close> with a loader that answers each path with \<open>loader path\<close>:
  the switch runs over the batch, then the loader calls back for the model elements, here
  in the order of the requests.
\<close>

definition loadEvents ::
    "(string \<Rightarrow> loadResult) \<Rightarrow> MapManager \<Rightarrow> elemRef list \<Rightarrow> (elemRef \<times> loadResult) list" where
  "loadEvents loader s es =
     map (\<lambda>e. (e, loader (modelPath (elementObjects s e))))
         (filter (\<lambda>e. etype (elementObjects s e) = Model) es)"

definition addElementsSettled :: "(string \<Rightarrow> loadResult) \<Rightarrow> elemRef list \<Rightarrow> MapManager \<Rightarrow> MapManager" where
  "addElementsSettled loader es s =
     snd (loadCallbacks (loadEvents loader s es) (snd (addElements es s)))"

text \<open>
  The id-to-element map as a reader sees it: every key with the element object stored
  under it, as the object then is.
\<close>

definition elementsView :: "MapManager \<Rightarrow> (string \<times> MapElement) list" where
  "elementsView s = map (\<lambda>p. (fst p, elementObjects s (snd p))) (elements s)"

text \<open>
  Every add path sets \<open>element.object3D\<close> before it stores the element, and no method
  clears it, so every stored element has one.
\<close>

definition elementsPlaced :: "MapManager \<Rightarrow> bool" where
  "elementsPlaced s = list_all (\<lambda>p. object3D (elementObjects s (snd p)) \<noteq> None) (elements s)"

text \<open>What the switch stores at once: every variant but the model, when its helper draws.\<close>

definition drawsNow :: "MapElement \<Rightarrow> bool" where
  "drawsNow e = (case etype e of Model \<Rightarrow> False | Line \<Rightarrow> True | _ \<Rightarrow> position e \<noteq> [])"

section \<open>Example states\<close>

definition emptyScene :: Object3D where
  "emptyScene = Node None None []"

definition plainMaterial :: Material where
  "plainMaterial = \<lparr> matKind = OtherMaterial, matColor = (0, 0, 0), matEmissive = (0, 0, 0) \<rparr>"

definition emptyManager :: MapManager where
  "emptyManager = newMapManager emptyScene (\<lambda>r. plainMaterial)"

definition mkElement :: "string \<Rightarrow> elemType \<Rightarrow> real list \<Rightarrow> string \<Rightarrow> MapElement" where
  "mkElement i ty pos txt =
     \<lparr> elemId = i, etype = ty, position = pos, labelText = txt, modelPath = ''./models/cone.glb'',
       modelScale = None, animation = True, startPosition = pos, endPosition = pos,
       elemData = NoData, object3D = None \<rparr>"

text \<open>The caller creates the objects \<open>es\<close>; they get the references 0, 1, 2 and so on.\<close>

definition createElements :: "MapElement list \<Rightarrow> MapManager \<Rightarrow> MapManager" where
  "createElements es s =
     s\<lparr> elementObjects := (\<lambda>r. if r < length es then es ! r else elementObjects s r) \<rparr>"

text \<open>A manager holding labels inside and outside the protected range, a bubble, a spot and a line.\<close>

definition demoElements :: MapManager where
  "demoElements =
     snd (addElements [0, 1, 2, 3, 4, 5, 6, 7]
       (createElements
         [mkElement ''label-0'' Label [1, 2] ''a'', mkElement ''label-31'' Label [1, 2] ''b'',
          mkElement ''label-32'' Label [1, 2] ''c'', mkElement ''label-007'' Bubble [3, 4] ''d'',
          mkElement ''spot-1'' Spot [5, 6] '''', mkElement ''line-0'' Line [5, 6] '''',
          mkElement ''label-'' Label [1, 2] ''e'', mkElement ''label-1x'' Label [1, 2] ''f'']
         emptyManager))"

text \<open>A manager to which \<open>addSpot\<close> has just added one spot (object 0).\<close>

definition spotManager :: MapManager where
  "spotManager =
     snd (addSpot 0 (createElements [mkElement ''spot-1'' Spot [5, 6] ''''] emptyManager))"

text \<open>
  A manager holding the label \<open>a\<close> (object 0), beside which the caller has created
  \<open>payloads\<close> as the objects 1, 2 and so on.
\<close>

definition labelManager :: "MapElement list \<Rightarrow> MapManager" where
  "labelManager payloads =
     snd (addLabel 0 (createElements (mkElement ''a'' Label [1, 2] ''old'' # payloads) emptyManager))"

text \<open>
  The caller has four objects: a label, a model, a spot and a model. The batch is all
  four; the loader calls back for the second model first, and the first model's load fails.
\<close>

definition batchManager :: MapManager where
  "batchManager =
     createElements
       [mkElement ''l1'' Label [1, 2] ''one'', mkElement ''m1'' Model [1, 2] '''',
        mkElement ''s1'' Spot [3, 4] '''', mkElement ''m2'' Model [5, 6] '''']
       emptyManager"

definition demoBatch :: "elemRef list" where
  "demoBatch = [0, 1, 2, 3]"

definition demoLoads :: "(elemRef \<times> loadResult) list" where
  "demoLoads = [(3, Loaded 2), (1, LoadError)]"

text \<open>
  The manager holding the label \<open>a\<close>, after the caller has assigned the id \<open>b\<close> to the
  stored object: the object is still stored under the key \<open>a\<close>.
\<close>

definition renamedManager :: MapManager where
  "renamedManager =
     writeElement 0 ((elementObjects (labelManager []) 0)\<lparr> elemId := ''b'' \<rparr>) (labelManager [])"

section \<open>Highlight requests that fail, and histories of the highlight map\<close>

text \<open>
  The two failures of \<open>highlightRegion\<close>: no node of the scene matches the name, or the
  matched node has no mesh marked \<open>isChangeColor\<close> beneath it.
\<close>

definition noHighlightable :: "string \<Rightarrow> Object3D \<Rightarrow> bool" where
  "noHighlightable regionName scene =
     (case findRegionByName regionName scene of
        None \<Rightarrow> True
      | Some targetRegion \<Rightarrow> collectMeshes targetRegion = [])"

text \<open>
  What can happen to the highlight map: a call of \<open>highlightRegion\<close> or of
  \<open>clearRegionHighlight\<close>, a timer coming due, an animation frame.
\<close>

datatype event =
  CallHighlightRegion string nat
| CallClearRegionHighlight string
| TimerDue nat
| AnimationFrame

fun applyEvent :: "event \<Rightarrow> MapManager \<Rightarrow> MapManager" where
  "applyEvent (CallHighlightRegion regionName duration) s = snd (highlightRegion regionName duration s)"
| "applyEvent (CallClearRegionHighlight regionName) s = snd (clearRegionHighlight regionName s)"
| "applyEvent (TimerDue handle) s = fireTimer handle s"
| "applyEvent AnimationFrame s = runFrame s"

definition runEvents :: "event list \<Rightarrow> MapManager \<Rightarrow> MapManager" where
  "runEvents evs s = fold applyEvent evs s"

text \<open>
  A scene as \<open>generateMapObject3D\<close> builds it: a province is a node with
  \<open>customProperties\<close>; each of its polygons is a mesh with the material array
  \<open>[MeshPhongMaterial, ShaderMaterial]\<close> marked \<open>isChangeColor\<close>, followed by its border
  line. Province \<open>A\<close> has two polygons, province \<open>B\<close> one.
\<close>

definition phong :: "color \<Rightarrow> Material" where
  "phong c = \<lparr> matKind = MeshPhongMaterial, matColor = c, matEmissive = (0, 0, 0) \<rparr>"

definition demoMaterials :: "nat \<Rightarrow> Material" where
  "demoMaterials =
     (\<lambda>r. plainMaterial)(0 := phong (1/5, 2/5, 3/5), 2 := phong (1/10, 3/10, 1/2), 4 := phong (0, 1/2, 1))"

definition extrudeMesh :: "objRef \<Rightarrow> nat \<Rightarrow> Object3D" where
  "extrudeMesh r topRef =
     Node None (Some \<lparr> meshRef = r, material = MatArray [Some topRef, Some (topRef + 1)],
                       isChangeColor = True \<rparr>) []"

definition borderLine :: "objRef \<Rightarrow> Object3D" where
  "borderLine r =
     Node None (Some \<lparr> meshRef = r, material = MatSingle (Some 9), isChangeColor = False \<rparr>) []"

definition province :: "string \<Rightarrow> Object3D list \<Rightarrow> Object3D" where
  "province nm children =
     Node (Some \<lparr> p_name = PStr nm, p_NAME = PUndef, p_adcode = PNum 110000, p_code = PUndef \<rparr>)
          None children"

definition demoScene :: Object3D where
  "demoScene =
     Node None None
       [province ''A'' [extrudeMesh 10 0, borderLine 11, extrudeMesh 12 2, borderLine 13],
        province ''B'' [extrudeMesh 14 4, borderLine 15]]"

definition highlightManager :: MapManager where
  "highlightManager = newMapManager demoScene demoMaterials"

text \<open>
  Province \<open>B\<close> highlighted for 3000 ms, and the same manager after the caller has taken
  the province out of the scene.
\<close>

definition highlightedB :: MapManager where
  "highlightedB = snd (highlightRegion ''B'' 3000 highlightManager)"

definition highlightedGone :: MapManager where
  "highlightedGone = highlightedB\<lparr> mapObject3D := emptyScene \<rparr>"

text \<open>Province \<open>A\<close> highlighted for 3000 ms, and the record that \<open>highlightedB\<close> holds for \<open>B\<close>.\<close>

definition highlightedA :: MapManager where
  "highlightedA = snd (highlightRegion ''A'' 3000 highlightManager)"

definition recordB :: HighlightInfo where
  "recordB =
     \<lparr> meshes = [\<lparr> meshRef = 14, material = MatArray [Some 4, Some 5], isChangeColor = True \<rparr>],
       originalMaterials = [phong (0, 1/2, 1), plainMaterial], timeoutId = 0 \<rparr>"

text \<open>
  Province \<open>B\<close> highlighted a second time while its first highlight is active, and
  province \<open>A\<close> after its highlight has been cancelled.
\<close>

definition highlightedTwice :: MapManager where
  "highlightedTwice = snd (highlightRegion ''B'' 3000 highlightedB)"

definition cancelledA :: MapManager where
  "cancelledA = snd (clearRegionHighlight ''A'' highlightedA)"

section \<open>Facts about the association list\<close>

lemma mapGet_mapDelete_same: "mapGet k (mapDelete k m) = None"
  by (induction m) (auto simp: mapDelete_def)

lemma mapGet_mapDelete_other: "k' \<noteq> k \<Longrightarrow> mapGet k' (mapDelete k m) = mapGet k' m"
  by (induction m) (auto simp: mapDelete_def)

lemma mapDelete_absent: "mapGet k m = None \<Longrightarrow> mapDelete k m = m"
  by (induction m) (auto simp: mapDelete_def split: if_splits)

lemma mapDelete_mapSet_absent: "mapGet k m = None \<Longrightarrow> mapDelete k (mapSet k v m) = m"
  by (induction m) (auto simp: mapDelete_def mapDelete_absent split: if_splits)

lemma mapGet_mapSet_same: "mapGet k (mapSet k v m) = Some v"
  by (induction m) auto

lemma mapGet_Some_in_set: "mapGet k m = Some v \<Longrightarrow> (k, v) \<in> set m"
  by (induction m) (auto split: if_splits)

lemma mapHas_mapSet: "mapHas k (mapSet k' v m) = (k = k' \<or> mapHas k m)"
  by (induction m) (auto simp: mapHas_def split: if_splits)

section \<open>Adding and removing elements\<close>

lemmas add_defs = addElement_def addLabel_def addBubble_def addSpot_def addModel_def addLine_def
  draw2dLabel_def draw2dBubble_def drawSpot_def drawLineBetween2Spot_def drawflySpot_def

lemmas example_defs = emptyManager_def emptyScene_def newMapManager_def mkElement_def
  createElements_def blankElement_def

lemma elements_addLabel:
  "elements (snd (addLabel e s)) =
     (if position (elementObjects s e) \<noteq> []
      then mapSet (elemId (elementObjects s e)) e (elements s) else elements s)"
  by (simp add: addLabel_def draw2dLabel_def Let_def)

lemma elements_addBubble:
  "elements (snd (addBubble e s)) =
     (if position (elementObjects s e) \<noteq> []
      then mapSet (elemId (elementObjects s e)) e (elements s) else elements s)"
  by (simp add: addBubble_def draw2dBubble_def Let_def)

lemma elements_addSpot:
  "elements (snd (addSpot e s)) =
     (if position (elementObjects s e) \<noteq> []
      then mapSet (elemId (elementObjects s e)) e (elements s) else elements s)"
  by (simp add: addSpot_def drawSpot_def Let_def)

lemma elements_addLine:
  "elements (snd (addLine e s)) = mapSet (elemId (elementObjects s e)) e (elements s)"
  by (simp add: addLine_def drawLineBetween2Spot_def drawflySpot_def Let_def)

lemma elements_gltfOnLoad:
  "elements (snd (gltfOnLoad e n s)) = mapSet (elemId (elementObjects s e)) e (elements s)"
  by (simp add: gltfOnLoad_def Let_def)

lemmas elements_add = elements_addLabel elements_addBubble elements_addSpot elements_addLine
  elements_gltfOnLoad

text \<open>
  An add writes \<open>object3D\<close> and \<open>data\<close> of the object it is given and nothing else in
  the store: when it stores the object, the object has its \<open>object3D\<close>.
\<close>

lemma objects_addLabel:
  "elementObjects (snd (addLabel e s)) =
     (if position (elementObjects s e) \<noteq> []
      then (elementObjects s)(e := (elementObjects s e)\<lparr> object3D := Some (nextRef s) \<rparr>)
      else elementObjects s)"
  by (simp add: addLabel_def draw2dLabel_def Let_def)

lemma objects_addBubble:
  "elementObjects (snd (addBubble e s)) =
     (if position (elementObjects s e) \<noteq> []
      then (elementObjects s)(e := (elementObjects s e)\<lparr> object3D := Some (nextRef s) \<rparr>)
      else elementObjects s)"
  by (simp add: addBubble_def draw2dBubble_def Let_def)

lemma objects_addSpot:
  "elementObjects (snd (addSpot e s)) =
     (if position (elementObjects s e) \<noteq> []
      then (elementObjects s)(e := (elementObjects s e)
             \<lparr> object3D := Some (nextRef s + 2),
               elemData := SpotData (nextRef s) (nextRef s + 1) \<rparr>)
      else elementObjects s)"
  by (simp add: addSpot_def drawSpot_def Let_def)

lemma objects_addLine:
  "elementObjects (snd (addLine e s)) =
     (elementObjects s)(e := (elementObjects s e)
        \<lparr> object3D := Some (nextRef s + 2),
          elemData := LineData (nextRef s + 1) (nextRef s) \<rparr>)"
  by (simp add: addLine_def drawLineBetween2Spot_def drawflySpot_def Let_def)

lemma objects_gltfOnLoad:
  "elementObjects (snd (gltfOnLoad e n s)) =
     (elementObjects s)(e := (elementObjects s e)\<lparr> object3D := Some (nextRef s) \<rparr>)"
  by (simp add: gltfOnLoad_def Let_def)

lemmas objects_add = objects_addLabel objects_addBubble objects_addSpot objects_addLine
  objects_gltfOnLoad

lemma addElement_keeps:
  "elemId (elementObjects (snd (addElement e s)) r) = elemId (elementObjects s r)"
  "etype (elementObjects (snd (addElement e s)) r) = etype (elementObjects s r)"
  "position (elementObjects (snd (addElement e s)) r) = position (elementObjects s r)"
  by (cases "etype (elementObjects s e)";
      simp add: addElement_def objects_add addModel_def)+

lemma loadCallback_keeps:
  "elemId (elementObjects (snd (loadCallback ev s)) r) = elemId (elementObjects s r)"
  "etype (elementObjects (snd (loadCallback ev s)) r) = etype (elementObjects s r)"
  "position (elementObjects (snd (loadCallback ev s)) r) = position (elementObjects s r)"
  by (cases "snd ev"; simp add: loadCallback_def gltfOnError_def objects_add)+

lemma snd_addElements_Cons [simp]:
  "snd (addElements (e # es) s) = snd (addElements es (snd (addElement e s)))"
  by (simp add: case_prod_beta)

lemma snd_loadCallbacks_Cons [simp]:
  "snd (loadCallbacks (ev # evs) s) = snd (loadCallbacks evs (snd (loadCallback ev s)))"
  by (simp add: case_prod_beta)

declare addElements.simps(2) [simp del] loadCallbacks.simps(2) [simp del]

lemma addElements_keeps:
  "elemId (elementObjects (snd (addElements es s)) r) = elemId (elementObjects s r) \<and>
   etype (elementObjects (snd (addElements es s)) r) = etype (elementObjects s r) \<and>
   position (elementObjects (snd (addElements es s)) r) = position (elementObjects s r)"
  by (induction es arbitrary: s) (simp_all add: addElement_keeps)

lemma elements_removeElement:
  "elements (snd (removeElement i s)) =
     (case mapGet i (elements s) of
        None \<Rightarrow> elements s
      | Some r \<Rightarrow> (case object3D (elementObjects s r) of
                     None \<Rightarrow> elements s
                   | Some obj \<Rightarrow> mapDelete i (elements s)))"
  by (simp add: removeElement_def Let_def split: option.splits elemType.splits elementData.splits)

lemma objects_removeElement: "elementObjects (snd (removeElement i s)) = elementObjects s"
  by (simp add: removeElement_def Let_def split: option.splits elemType.splits elementData.splits)

lemma objects_removeElements: "elementObjects (removeElements ids s) = elementObjects s"
  by (induction ids arbitrary: s) (simp_all add: objects_removeElement)

text \<open>\<open>removeElement\<close> finds nothing to remove under an id with no entry, or with an entry that has no \<open>object3D\<close>.\<close>

lemma removeElement_noop:
  "mapGet i (elements s) = None \<or>
   (\<exists>r. mapGet i (elements s) = Some r \<and> object3D (elementObjects s r) = None) \<Longrightarrow>
   removeElement i s = (False, s)"
  by (auto simp: removeElement_def Let_def)

lemma nothing_left_after_removeElement:
  "mapGet i (elements (snd (removeElement i s))) = None \<or>
   (\<exists>r. mapGet i (elements (snd (removeElement i s))) = Some r \<and>
        object3D (elementObjects (snd (removeElement i s)) r) = None)"
  unfolding elements_removeElement objects_removeElement
  by (auto simp: mapGet_mapDelete_same split: option.splits)

lemma nothing_left_preserved:
  assumes "mapGet i (elements s) = None \<or>
           (\<exists>r. mapGet i (elements s) = Some r \<and> object3D (elementObjects s r) = None)"
  shows "mapGet i (elements (snd (removeElement j s))) = None \<or>
         (\<exists>r. mapGet i (elements (snd (removeElement j s))) = Some r \<and>
              object3D (elementObjects (snd (removeElement j s)) r) = None)"
  using assms unfolding elements_removeElement objects_removeElement
  by (cases "i = j") (auto simp: mapGet_mapDelete_same mapGet_mapDelete_other split: option.splits)

lemma nothing_left_removeElements:
  "mapGet i (elements s) = None \<or>
   (\<exists>r. mapGet i (elements s) = Some r \<and> object3D (elementObjects s r) = None) \<Longrightarrow>
   mapGet i (elements (removeElements ids s)) = None \<or>
   (\<exists>r. mapGet i (elements (removeElements ids s)) = Some r \<and>
        object3D (elementObjects (removeElements ids s) r) = None)"
proof (induction ids arbitrary: s)
  case Nil
  then show ?case by simp
next
  case (Cons j ids)
  show ?case using Cons.IH[OF nothing_left_preserved[OF Cons.prems]] by simp
qed

lemma removeElements_noop:
  "\<forall>i \<in> set ids. mapGet i (elements s) = None \<or>
      (\<exists>r. mapGet i (elements s) = Some r \<and> object3D (elementObjects s r) = None) \<Longrightarrow>
   removeElements ids s = s"
proof (induction ids arbitrary: s)
  case Nil
  show ?case by simp
next
  case (Cons j ids)
  then have "removeElement j s = (False, s)" by (intro removeElement_noop) simp
  with Cons show ?case by simp
qed

lemma nothing_left_of_all:
  "\<forall>i \<in> set ids. mapGet i (elements (removeElements ids s)) = None \<or>
     (\<exists>r. mapGet i (elements (removeElements ids s)) = Some r \<and>
          object3D (elementObjects (removeElements ids s) r) = None)"
proof (induction ids arbitrary: s)
  case Nil
  show ?case by simp
next
  case (Cons j ids)
  have "mapGet j (elements (removeElements ids (snd (removeElement j s)))) = None \<or>
        (\<exists>r. mapGet j (elements (removeElements ids (snd (removeElement j s)))) = Some r \<and>
             object3D (elementObjects (removeElements ids (snd (removeElement j s))) r) = None)"
    by (rule nothing_left_removeElements[OF nothing_left_after_removeElement])
  with Cons show ?case by simp
qed

lemma removeElements_idempotent:
  "removeElements ids (removeElements ids s) = removeElements ids s"
  by (rule removeElements_noop[OF nothing_left_of_all])

text \<open>
  Claim C7. Removing an id that is not in the element map is a no-op:
  \<open>removeElement\<close> returns false and the whole manager (element map, scene containers,
  animation lists) is as before. So \<open>removeElements\<close> of unknown ids changes nothing,
  running it a second time on the same ids changes nothing more, and removing an id
  twice is the same as removing it once.
\<close>

theorem removeElement_unknown_id_noop:
  "(getElement i s = None \<longrightarrow> removeElement i s = (False, s)) \<and>
   ((\<forall>j \<in> set ids. getElement j s = None) \<longrightarrow> removeElements ids s = s) \<and>
   removeElements ids (removeElements ids s) = removeElements ids s \<and>
   removeElements [i, i] s = removeElements [i] s"
proof -
  have a: "getElement i s = None \<longrightarrow> removeElement i s = (False, s)"
    by (simp add: getElement_def removeElement_def)
  have b: "(\<forall>j \<in> set ids. getElement j s = None) \<longrightarrow> removeElements ids s = s"
    by (auto simp: getElement_def intro: removeElements_noop)
  have "removeElement i (snd (removeElement i s)) = (False, snd (removeElement i s))"
    by (rule removeElement_noop[OF nothing_left_after_removeElement])
  then have c: "removeElements [i, i] s = removeElements [i] s" by simp
  show ?thesis using a b c removeElements_idempotent by simp
qed

text \<open>Witness for C7: the ids \<open>ghost\<close> and \<open>nobody\<close> are not in the example manager.\<close>

theorem removeElement_unknown_id_noop_witness:
  "getElement ''ghost'' demoElements = None \<and> getElement ''nobody'' demoElements = None \<and>
   removeElement ''ghost'' demoElements = (False, demoElements) \<and>
   removeElements [''ghost'', ''nobody''] demoElements = demoElements"
proof -
  have g: "getElement ''ghost'' demoElements = None" "getElement ''nobody'' demoElements = None"
    by (simp_all add: getElement_def demoElements_def example_defs add_defs addElements.simps(2) Let_def)
  then have h: "\<forall>j \<in> set [''ghost'', ''nobody'']. getElement j demoElements = None"
    by simp
  show ?thesis
    using g h removeElement_unknown_id_noop[of "''ghost''" demoElements "[''ghost'', ''nobody'']"]
    by blast
qed

text \<open>
  Claim C10 as stated fails when the id is already in use: the element map is unchanged,
  so \<open>getElement\<close> still returns the element stored before. Here \<open>addLabel\<close> is called
  with an object that has the id \<open>a\<close> of a stored label and an empty position.
\<close>

theorem addLabel_empty_position_existing_id:
  "elemId (elementObjects (labelManager [mkElement ''a'' Label [] ''new'']) 1) = ''a'' \<and>
   position (elementObjects (labelManager [mkElement ''a'' Label [] ''new'']) 1) = [] \<and>
   fst (addLabel 1 (labelManager [mkElement ''a'' Label [] ''new''])) = Resolved \<and>
   getElement ''a'' (snd (addLabel 1 (labelManager [mkElement ''a'' Label [] ''new'']))) \<noteq> None"
  by (simp add: getElement_def labelManager_def example_defs add_defs Let_def)

text \<open>
  Claim C10, amended. When \<open>addLabel\<close>, \<open>addBubble\<close> or \<open>addSpot\<close> is called with an
  empty coordinate array, the promise resolves and the manager is unchanged, so
  \<open>getElement\<close> returns for the element's id what it returned before the call:
  undefined when no element with that id was in the map.
\<close>

theorem add_empty_position_unchanged:
  "position (elementObjects s e) = [] \<Longrightarrow>
   addLabel e s = (Resolved, s) \<and> addBubble e s = (Resolved, s) \<and> addSpot e s = (Resolved, s) \<and>
   getElement (elemId (elementObjects s e)) (snd (addLabel e s)) =
     getElement (elemId (elementObjects s e)) s \<and>
   getElement (elemId (elementObjects s e)) (snd (addBubble e s)) =
     getElement (elemId (elementObjects s e)) s \<and>
   getElement (elemId (elementObjects s e)) (snd (addSpot e s)) =
     getElement (elemId (elementObjects s e)) s \<and>
   (getElement (elemId (elementObjects s e)) s = None \<longrightarrow>
      getElement (elemId (elementObjects s e)) (snd (addLabel e s)) = None \<and>
      getElement (elemId (elementObjects s e)) (snd (addBubble e s)) = None \<and>
      getElement (elemId (elementObjects s e)) (snd (addSpot e s)) = None)"
  by (simp add: addLabel_def addBubble_def addSpot_def draw2dLabel_def draw2dBubble_def
      drawSpot_def Let_def)

text \<open>Witness for C10: a spot with an empty position and an id not in use.\<close>

theorem add_empty_position_unchanged_witness:
  "position (elementObjects (labelManager [mkElement ''s'' Spot [] '''']) 1) = [] \<and>
   getElement (elemId (elementObjects (labelManager [mkElement ''s'' Spot [] '''']) 1))
     (labelManager [mkElement ''s'' Spot [] '''']) = None \<and>
   addSpot 1 (labelManager [mkElement ''s'' Spot [] '''']) =
     (Resolved, labelManager [mkElement ''s'' Spot [] '''']) \<and>
   getElement (elemId (elementObjects (labelManager [mkElement ''s'' Spot [] '''']) 1))
     (snd (addSpot 1 (labelManager [mkElement ''s'' Spot [] '''']))) = None"
proof -
  let ?s = "labelManager [mkElement ''s'' Spot [] '''']"
  have p: "position (elementObjects ?s 1) = []"
    by (simp add: labelManager_def example_defs add_defs Let_def)
  have g: "getElement (elemId (elementObjects ?s 1)) ?s = None"
    by (simp add: getElement_def labelManager_def example_defs add_defs Let_def)
  show ?thesis
    using p g add_empty_position_unchanged[OF p] by blast
qed

text \<open>
  Claim C4 as stated fails in three ways. When the id of the payload is already in the
  map, \<open>set\<close> overwrites the entry and the removal deletes the key, so the element that
  was there before the add is lost. When the payload is an object the map already
  stores (under the key \<open>a\<close>, the caller having given it the unused id \<open>b\<close>), the add
  writes a new \<open>object3D\<close> into it, so the entry under \<open>a\<close> is not what it was. When a
  model is removed before its load has completed, the removal finds nothing and the
  load callback then inserts the model.
\<close>

theorem add_remove_existing_id_loses_element:
  "elements (removeElements [''a'']
      (addElementsSettled (\<lambda>path. LoadError) [1] (labelManager [mkElement ''a'' Label [3, 4] ''new''])))
     \<noteq> elements (labelManager [mkElement ''a'' Label [3, 4] ''new'']) \<and>
   getElement ''b'' renamedManager = None \<and>
   elementsView (removeElements [''b''] (addElementsSettled (\<lambda>path. LoadError) [0] renamedManager))
     \<noteq> elementsView renamedManager \<and>
   getElement ''m'' (labelManager [mkElement ''m'' Model [1, 2] '''']) = None \<and>
   mapKeys (elements (labelManager [mkElement ''m'' Model [1, 2] ''''])) = [''a''] \<and>
   mapKeys (elements (snd (loadCallback (1, Loaded 1)
      (removeElements [''m''] (snd (addElements [1] (labelManager [mkElement ''m'' Model [1, 2] ''''])))))))
     = [''a'', ''m'']"
  by (simp add: addElementsSettled_def loadEvents_def labelManager_def renamedManager_def
      writeElement_def example_defs add_defs addElements.simps(2) loadCallbacks.simps(2)
      loadCallback_def gltfOnLoad_def removeElement_def mapDelete_def getElement_def
      elementsView_def mapKeys_def Let_def)

text \<open>The view of the map does not depend on objects the map does not store.\<close>

lemma elementsView_cong:
  assumes "elements s' = elements s"
    and "\<forall>r \<in> snd ` set (elements s). elementObjects s' r = elementObjects s r"
  shows "elementsView s' = elementsView s"
  using assms by (simp add: elementsView_def)

lemma addElement_other_object:
  "r \<noteq> e \<Longrightarrow> elementObjects (snd (addElement e s)) r = elementObjects s r"
  by (cases "etype (elementObjects s e)") (simp_all add: addElement_def objects_add addModel_def)

lemma loadCallback_other_object:
  "r \<noteq> fst ev \<Longrightarrow> elementObjects (snd (loadCallback ev s)) r = elementObjects s r"
  by (cases "snd ev") (simp_all add: loadCallback_def gltfOnError_def objects_add)

lemma addElement_stored:
  "elements (snd (addElement e s)) = elements s \<or>
   (elements (snd (addElement e s)) = mapSet (elemId (elementObjects s e)) e (elements s) \<and>
    object3D (elementObjects (snd (addElement e s)) e) \<noteq> None)"
  by (cases "etype (elementObjects s e)")
     (simp_all add: addElement_def elements_add objects_add addModel_def)

lemma loadCallback_stored:
  "elements (snd (loadCallback (e, r) s)) = elements s \<or>
   (elements (snd (loadCallback (e, r) s)) = mapSet (elemId (elementObjects s e)) e (elements s) \<and>
    object3D (elementObjects (snd (loadCallback (e, r) s)) e) \<noteq> None)"
  by (cases r) (simp_all add: loadCallback_def gltfOnError_def elements_add objects_add)

lemma remove_after_store:
  assumes "mapGet i m = None"
    and "elements s' = m \<or> (elements s' = mapSet i e m \<and> object3D (elementObjects s' e) \<noteq> None)"
  shows "elements (snd (removeElement i s')) = m"
  using assms unfolding elements_removeElement
  by (auto simp: mapGet_mapSet_same mapDelete_mapSet_absent)

text \<open>
  Claim C4, amended. For every manager state and every element payload whose id is not
  already in the element map and whose object is not already stored in it,
  \<open>addElements([e])\<close>, once it has settled (whatever the loader answers for a model),
  followed by \<open>removeElements([e.id])\<close> leaves the element map equal to what it was
  before the add: the same keys with the same objects, and the objects as they were.
  Every variant but the model has settled when \<open>addElements\<close> returns.
\<close>

theorem add_then_remove_fresh_id:
  assumes "getElement (elemId (elementObjects s e)) s = None" and "e \<notin> snd ` set (elements s)"
  shows "elements (removeElements [elemId (elementObjects s e)] (addElementsSettled loader [e] s))
           = elements s \<and>
         elementsView (removeElements [elemId (elementObjects s e)] (addElementsSettled loader [e] s))
           = elementsView s \<and>
         (etype (elementObjects s e) \<noteq> Model \<longrightarrow>
            addElementsSettled loader [e] s = snd (addElements [e] s))"
proof -
  let ?i = "elemId (elementObjects s e)"
  let ?s1 = "snd (addElement e s)"
  have g: "mapGet ?i (elements s) = None" using assms(1) by (simp add: getElement_def)
  have settled: "addElementsSettled loader [e] s =
        (if etype (elementObjects s e) = Model
         then snd (loadCallback (e, loader (modelPath (elementObjects s e))) s) else ?s1)"
    by (simp add: addElementsSettled_def loadEvents_def addElement_def addModel_def)
  have st: "elements (addElementsSettled loader [e] s) = elements s \<or>
        (elements (addElementsSettled loader [e] s) = mapSet ?i e (elements s) \<and>
         object3D (elementObjects (addElementsSettled loader [e] s) e) \<noteq> None)"
    using addElement_stored[of e s] loadCallback_stored[of e _ s] by (simp add: settled)
  have oth: "elementObjects (addElementsSettled loader [e] s) r = elementObjects s r" if "r \<noteq> e" for r
    using that addElement_other_object[of r e s] loadCallback_other_object[of r "(e, _)" s]
    by (simp add: settled)
  have a: "elements (removeElements [?i] (addElementsSettled loader [e] s)) = elements s"
    using remove_after_store[OF g st] by simp
  have "elementObjects (removeElements [?i] (addElementsSettled loader [e] s)) r = elementObjects s r"
    if r: "r \<in> snd ` set (elements s)" for r
  proof -
    have "r \<noteq> e" using r assms(2) by blast
    then show ?thesis using oth[of r] by (simp add: objects_removeElement)
  qed
  then have "\<forall>r \<in> snd ` set (elements s).
      elementObjects (removeElements [?i] (addElementsSettled loader [e] s)) r = elementObjects s r"
    by blast
  then have b: "elementsView (removeElements [?i] (addElementsSettled loader [e] s)) = elementsView s"
    by (rule elementsView_cong[OF a])
  have c: "etype (elementObjects s e) \<noteq> Model \<longrightarrow>
        addElementsSettled loader [e] s = snd (addElements [e] s)"
    by (simp add: addElementsSettled_def loadEvents_def addElement_def split: elemType.splits)
  show ?thesis using a b c by simp
qed

text \<open>
  Witness for C4: a model object with the unused id \<open>b\<close>, not stored in the map, whose
  load succeeds; and a label object with the unused id \<open>c\<close>, which has settled when
  \<open>addElements\<close> returns.
\<close>

theorem add_then_remove_fresh_id_witness:
  "getElement (elemId (elementObjects (labelManager [mkElement ''b'' Model [1, 2] '''']) 1))
     (labelManager [mkElement ''b'' Model [1, 2] '''']) = None \<and>
   1 \<notin> snd ` set (elements (labelManager [mkElement ''b'' Model [1, 2] ''''])) \<and>
   elementsView (removeElements [elemId (elementObjects (labelManager [mkElement ''b'' Model [1, 2] '''']) 1)]
      (addElementsSettled (\<lambda>path. Loaded 1) [1] (labelManager [mkElement ''b'' Model [1, 2] ''''])))
   = elementsView (labelManager [mkElement ''b'' Model [1, 2] '''']) \<and>
   getElement (elemId (elementObjects (labelManager [mkElement ''c'' Label [1, 2] '''']) 1))
     (labelManager [mkElement ''c'' Label [1, 2] '''']) = None \<and>
   1 \<notin> snd ` set (elements (labelManager [mkElement ''c'' Label [1, 2] ''''])) \<and>
   etype (elementObjects (labelManager [mkElement ''c'' Label [1, 2] '''']) 1) \<noteq> Model \<and>
   elementsView (removeElements [elemId (elementObjects (labelManager [mkElement ''c'' Label [1, 2] '''']) 1)]
      (snd (addElements [1] (labelManager [mkElement ''c'' Label [1, 2] '''']))))
   = elementsView (labelManager [mkElement ''c'' Label [1, 2] ''''])"
proof -
  let ?s = "labelManager [mkElement ''b'' Model [1, 2] '''']"
  let ?t = "labelManager [mkElement ''c'' Label [1, 2] '''']"
  have g: "getElement (elemId (elementObjects ?s 1)) ?s = None"
    by (simp add: getElement_def labelManager_def example_defs add_defs Let_def)
  have u: "1 \<notin> snd ` set (elements ?s)"
    by (simp add: labelManager_def example_defs add_defs Let_def)
  have g': "getElement (elemId (elementObjects ?t 1)) ?t = None"
    by (simp add: getElement_def labelManager_def example_defs add_defs Let_def)
  have u': "1 \<notin> snd ` set (elements ?t)"
    by (simp add: labelManager_def example_defs add_defs Let_def)
  have m': "etype (elementObjects ?t 1) \<noteq> Model"
    by (simp add: labelManager_def example_defs add_defs Let_def)
  note t' = add_then_remove_fresh_id[OF g' u', of "\<lambda>path. Loaded 1"]
  have "addElementsSettled (\<lambda>path. Loaded 1) [1] ?t = snd (addElements [1] ?t)"
    using t' m' by blast
  then have v': "elementsView (removeElements [elemId (elementObjects ?t 1)] (snd (addElements [1] ?t)))
        = elementsView ?t"
    using t' by simp
  show ?thesis
    using g u g' u' m' v' add_then_remove_fresh_id[OF g u, of "\<lambda>path. Loaded 1"] by blast
qed

section \<open>Clearing\<close>

lemma placed_removeElement_elements:
  assumes "elementsPlaced s"
  shows "elements (snd (removeElement i s)) = mapDelete i (elements s)"
proof (cases "mapGet i (elements s)")
  case None
  then show ?thesis by (simp add: elements_removeElement mapDelete_absent)
next
  case (Some r)
  then have "(i, r) \<in> set (elements s)" by (rule mapGet_Some_in_set)
  with assms have "object3D (elementObjects s r) \<noteq> None"
    by (auto simp: elementsPlaced_def list_all_iff)
  with Some show ?thesis by (auto simp: elements_removeElement)
qed

lemma placed_removeElement: "elementsPlaced s \<Longrightarrow> elementsPlaced (snd (removeElement i s))"
  using placed_removeElement_elements[of s i]
  by (auto simp: elementsPlaced_def objects_removeElement mapDelete_def list_all_iff)

lemma placed_removeElements_elements:
  "elementsPlaced s \<Longrightarrow>
   elements (removeElements ids s) = filter (\<lambda>p. fst p \<notin> set ids) (elements s)"
proof (induction ids arbitrary: s)
  case Nil
  then show ?case by simp
next
  case (Cons i ids)
  have "elements (removeElements ids (snd (removeElement i s))) =
        filter (\<lambda>p. fst p \<notin> set ids) (mapDelete i (elements s))"
    using Cons.IH[OF placed_removeElement[OF Cons.prems]]
    by (simp add: placed_removeElement_elements[OF Cons.prems])
  then show ?case by (simp add: mapDelete_def conj_commute)
qed

lemma placed_clearAllElements_elements:
  assumes "elementsPlaced s"
  shows "elements (clearAllElements s) = filter (\<lambda>p. \<not> toRemove (fst p)) (elements s)"
  unfolding clearAllElements_def placed_removeElements_elements[OF assms]
  by (rule filter_cong) (auto simp: mapKeys_def)

lemma not_toRemove_iff:
  "\<not> toRemove i \<longleftrightarrow>
   (\<exists>ds. i = ''label-'' @ ds \<and> ds \<noteq> [] \<and> list_all isDigit ds \<and> parseInt ds \<le> 31)"
proof
  assume "\<not> toRemove i"
  then have m: "take 6 i = ''label-''" "drop 6 i \<noteq> []" "list_all isDigit (drop 6 i)"
    and le: "parseInt (drop 6 i) \<le> 31"
    by (auto simp: toRemove_def matchLabel_def Let_def split: if_splits option.splits)
  have "i = take 6 i @ drop 6 i" by simp
  with m le show "\<exists>ds. i = ''label-'' @ ds \<and> ds \<noteq> [] \<and> list_all isDigit ds \<and> parseInt ds \<le> 31"
    by metis
next
  assume "\<exists>ds. i = ''label-'' @ ds \<and> ds \<noteq> [] \<and> list_all isDigit ds \<and> parseInt ds \<le> 31"
  then show "\<not> toRemove i"
    by (auto simp: toRemove_def matchLabel_def Let_def)
qed

text \<open>The invariant holds of a new manager and is kept by every operation on elements.\<close>

lemma placed_new: "elementsPlaced (newMapManager scene mats)"
  by (simp add: elementsPlaced_def newMapManager_def)

lemma set_mapSet_subset: "set (mapSet k v m) \<subseteq> insert (k, v) (set m)"
  by (induction m) (auto split: if_splits)

lemma placed_store:
  assumes "elementsPlaced s"
    and el: "elements s' = mapSet k e (elements s)"
    and ob: "elementObjects s' = (elementObjects s)(e := v)"
    and v: "object3D v \<noteq> None"
  shows "elementsPlaced s'"
proof -
  have "object3D (elementObjects s' (snd p)) \<noteq> None" if p: "p \<in> set (elements s')" for p
  proof (cases "snd p = e")
    case True
    then show ?thesis using v by (simp add: ob)
  next
    case False
    then have "p \<in> set (elements s)"
      using p set_mapSet_subset[of k e "elements s"] by (auto simp: el)
    then show ?thesis using assms(1) False by (auto simp: ob elementsPlaced_def list_all_iff)
  qed
  then show ?thesis by (simp add: elementsPlaced_def list_all_iff)
qed

lemma placed_addLabel: "elementsPlaced s \<Longrightarrow> elementsPlaced (snd (addLabel e s))"
proof (cases "position (elementObjects s e) = []")
  case True
  assume "elementsPlaced s"
  with True show ?thesis by (simp add: addLabel_def draw2dLabel_def Let_def)
next
  case False
  assume p: "elementsPlaced s"
  show ?thesis
    by (rule placed_store[OF p, of _ "elemId (elementObjects s e)" e
          "(elementObjects s e)\<lparr> object3D := Some (nextRef s) \<rparr>"])
       (simp_all add: False elements_addLabel objects_addLabel)
qed

lemma placed_addBubble: "elementsPlaced s \<Longrightarrow> elementsPlaced (snd (addBubble e s))"
proof (cases "position (elementObjects s e) = []")
  case True
  assume "elementsPlaced s"
  with True show ?thesis by (simp add: addBubble_def draw2dBubble_def Let_def)
next
  case False
  assume p: "elementsPlaced s"
  show ?thesis
    by (rule placed_store[OF p, of _ "elemId (elementObjects s e)" e
          "(elementObjects s e)\<lparr> object3D := Some (nextRef s) \<rparr>"])
       (simp_all add: False elements_addBubble objects_addBubble)
qed

lemma placed_addSpot: "elementsPlaced s \<Longrightarrow> elementsPlaced (snd (addSpot e s))"
proof (cases "position (elementObjects s e) = []")
  case True
  assume "elementsPlaced s"
  with True show ?thesis by (simp add: addSpot_def drawSpot_def Let_def)
next
  case False
  assume p: "elementsPlaced s"
  show ?thesis
    by (rule placed_store[OF p, of _ "elemId (elementObjects s e)" e
          "(elementObjects s e)\<lparr> object3D := Some (nextRef s + 2),
                                  elemData := SpotData (nextRef s) (nextRef s + 1) \<rparr>"])
       (simp_all add: False elements_addSpot objects_addSpot)
qed

lemma placed_addLine: "elementsPlaced s \<Longrightarrow> elementsPlaced (snd (addLine e s))"
proof -
  assume p: "elementsPlaced s"
  show ?thesis
    by (rule placed_store[OF p, of _ "elemId (elementObjects s e)" e
          "(elementObjects s e)\<lparr> object3D := Some (nextRef s + 2),
                                  elemData := LineData (nextRef s + 1) (nextRef s) \<rparr>"])
       (simp_all add: elements_addLine objects_addLine)
qed

lemma placed_gltfOnLoad: "elementsPlaced s \<Longrightarrow> elementsPlaced (snd (gltfOnLoad e n s))"
proof -
  assume p: "elementsPlaced s"
  show ?thesis
    by (rule placed_store[OF p, of _ "elemId (elementObjects s e)" e
          "(elementObjects s e)\<lparr> object3D := Some (nextRef s) \<rparr>"])
       (simp_all add: elements_gltfOnLoad objects_gltfOnLoad)
qed

lemma placed_addElement: "elementsPlaced s \<Longrightarrow> elementsPlaced (snd (addElement e s))"
  by (cases "etype (elementObjects s e)")
     (simp_all add: addElement_def addModel_def placed_addLabel placed_addBubble placed_addSpot
        placed_addLine)

lemma placed_loadCallback: "elementsPlaced s \<Longrightarrow> elementsPlaced (snd (loadCallback ev s))"
  by (cases "snd ev") (simp_all add: loadCallback_def gltfOnError_def placed_gltfOnLoad)

lemma placed_updateAnimations: "elementsPlaced s \<Longrightarrow> elementsPlaced (updateAnimations d s)"
  by (simp add: elementsPlaced_def updateAnimations_def)

lemma placed_removeElements: "elementsPlaced s \<Longrightarrow> elementsPlaced (removeElements ids s)"
  by (induction ids arbitrary: s) (simp_all add: placed_removeElement)

lemma placed_clearAllElements: "elementsPlaced s \<Longrightarrow> elementsPlaced (clearAllElements s)"
  by (simp add: clearAllElements_def placed_removeElements)

lemmas toRemove_defs = toRemove_def matchLabel_def isDigit_def parseInt_def digitVal_def

text \<open>
  Claim C3. In every state of the element map that the manager can be in (each stored
  element has its \<open>object3D\<close>), \<open>clearAllElements\<close> leaves exactly the entries whose id the
  filter keeps, in their order and unchanged, and the filter keeps exactly the ids
  \<open>label-N\<close> where \<open>N\<close> is a non-empty string of decimal digits whose value is at most
  31: every such id is preserved and every other id is removed.
\<close>

theorem clearAllElements_keeps_protected_labels:
  assumes "elementsPlaced s"
  shows "elements (clearAllElements s) = filter (\<lambda>p. \<not> toRemove (fst p)) (elements s) \<and>
         elementsView (clearAllElements s) = filter (\<lambda>p. \<not> toRemove (fst p)) (elementsView s) \<and>
         (\<forall>i. \<not> toRemove i \<longleftrightarrow>
            (\<exists>ds. i = ''label-'' @ ds \<and> ds \<noteq> [] \<and> list_all isDigit ds \<and> parseInt ds \<le> 31)) \<and>
         (\<forall>i. getElement i (clearAllElements s) = (if toRemove i then None else getElement i s))"
proof -
  have e: "elements (clearAllElements s) = filter (\<lambda>p. \<not> toRemove (fst p)) (elements s)"
    by (rule placed_clearAllElements_elements[OF assms])
  have o: "elementObjects (clearAllElements s) = elementObjects s"
    by (simp add: clearAllElements_def objects_removeElements)
  have v: "elementsView (clearAllElements s) = filter (\<lambda>p. \<not> toRemove (fst p)) (elementsView s)"
    by (simp add: elementsView_def e o filter_map o_def)
  have g: "mapGet i (filter (\<lambda>p. \<not> toRemove (fst p)) m) = (if toRemove i then None else mapGet i m)"
    for i and m :: "(string \<times> elemRef) list"
    by (induction m) auto
  have i: "\<forall>i. \<not> toRemove i \<longleftrightarrow>
            (\<exists>ds. i = ''label-'' @ ds \<and> ds \<noteq> [] \<and> list_all isDigit ds \<and> parseInt ds \<le> 31)"
    using not_toRemove_iff by blast
  have l: "\<forall>i. getElement i (clearAllElements s) = (if toRemove i then None else getElement i s)"
    by (simp add: getElement_def e o g)
  show ?thesis using e v i l by blast
qed

text \<open>
  Witness for C3: of the ids \<open>label-0\<close>, \<open>label-31\<close>, \<open>label-32\<close>, \<open>label-007\<close>, \<open>spot-1\<close>,
  \<open>line-0\<close>, \<open>label-\<close> and \<open>label-1x\<close>, the first two and the fourth stay.
\<close>

theorem clearAllElements_keeps_protected_labels_witness:
  "elementsPlaced demoElements \<and>
   mapKeys (elements demoElements) =
     [''label-0'', ''label-31'', ''label-32'', ''label-007'', ''spot-1'', ''line-0'', ''label-'', ''label-1x''] \<and>
   mapKeys (elements (clearAllElements demoElements)) = [''label-0'', ''label-31'', ''label-007'']"
proof -
  have p: "elementsPlaced demoElements"
    by (simp add: demoElements_def example_defs add_defs addElements.simps(2) elementsPlaced_def Let_def)
  have k: "mapKeys (elements demoElements) =
     [''label-0'', ''label-31'', ''label-32'', ''label-007'', ''spot-1'', ''line-0'', ''label-'', ''label-1x'']"
    by (simp add: demoElements_def example_defs add_defs addElements.simps(2) mapKeys_def Let_def)
  have c: "mapKeys (elements (clearAllElements demoElements)) = [''label-0'', ''label-31'', ''label-007'']"
    using clearAllElements_keeps_protected_labels[OF p]
    by (simp add: demoElements_def example_defs add_defs addElements.simps(2) mapKeys_def
        toRemove_defs Let_def)
  show ?thesis using p k c by simp
qed

section \<open>A batch with a failing model load\<close>

lemma loadCallback_failed: "loadCallback (e, LoadError) s = (Rejected, s)"
  by (simp add: loadCallback_def gltfOnError_def)

lemma loadCallbacks_drop_failed:
  "snd (loadCallbacks evs s) = snd (loadCallbacks (filter (\<lambda>ev. snd ev \<noteq> LoadError) evs) s)"
proof (induction evs arbitrary: s)
  case Nil
  show ?case by simp
next
  case (Cons ev evs)
  show ?case
  proof (cases "snd ev = LoadError")
    case True
    then have "loadCallback ev s = (Rejected, s)"
      by (simp add: loadCallback_def gltfOnError_def)
    then show ?thesis using True Cons.IH[of s] by simp
  next
    case False
    then show ?thesis using Cons.IH[of "snd (loadCallback ev s)"] by simp
  qed
qed

lemma addElements_skip_models:
  "\<forall>e \<in> set es. \<not> P e \<longrightarrow> etype (elementObjects s e) = Model \<Longrightarrow>
   snd (addElements (filter P es) s) = snd (addElements es s)"
proof (induction es arbitrary: s)
  case Nil
  show ?case by simp
next
  case (Cons e es)
  show ?case
  proof (cases "P e")
    case True
    have "\<forall>x \<in> set es. \<not> P x \<longrightarrow> etype (elementObjects (snd (addElement e s)) x) = Model"
      using Cons.prems by (simp add: addElement_keeps)
    then show ?thesis using True Cons.IH[of "snd (addElement e s)"] by simp
  next
    case False
    with Cons.prems have "addElement e s = (Pending, s)"
      by (simp add: addElement_def addModel_def)
    then show ?thesis using False Cons.IH[of s] Cons.prems by simp
  qed
qed

lemma mapHas_addElement: "mapHas k (elements s) \<Longrightarrow> mapHas k (elements (snd (addElement e s)))"
  by (cases "etype (elementObjects s e)")
     (simp_all add: addElement_def elements_add mapHas_mapSet addModel_def)

lemma mapHas_addElements: "mapHas k (elements s) \<Longrightarrow> mapHas k (elements (snd (addElements es s)))"
  by (induction es arbitrary: s) (simp_all add: mapHas_addElement)

lemma mapHas_loadCallback: "mapHas k (elements s) \<Longrightarrow> mapHas k (elements (snd (loadCallback ev s)))"
  by (cases "snd ev") (simp_all add: loadCallback_def gltfOnError_def elements_add mapHas_mapSet)

lemma mapHas_loadCallbacks: "mapHas k (elements s) \<Longrightarrow> mapHas k (elements (snd (loadCallbacks evs s)))"
  by (induction evs arbitrary: s) (simp_all add: mapHas_loadCallback)

lemma loadCallbacks_keeps:
  "elemId (elementObjects (snd (loadCallbacks evs s)) r) = elemId (elementObjects s r)"
  by (induction evs arbitrary: s) (simp_all add: loadCallback_keeps)

lemma drawsNow_stored:
  "drawsNow (elementObjects s e) \<Longrightarrow>
   mapHas (elemId (elementObjects s e)) (elements (snd (addElement e s)))"
  by (cases "etype (elementObjects s e)")
     (simp_all add: drawsNow_def addElement_def elements_add mapHas_mapSet)

lemma drawsNow_keeps:
  "drawsNow (elementObjects (snd (addElement x s)) e) = drawsNow (elementObjects s e)"
  by (simp add: drawsNow_def addElement_keeps split: elemType.splits)

lemma drawsNow_in_batch:
  "e \<in> set es \<Longrightarrow> drawsNow (elementObjects s e) \<Longrightarrow>
   mapHas (elemId (elementObjects s e)) (elements (snd (addElements es s)))"
proof (induction es arbitrary: s)
  case Nil
  then show ?case by simp
next
  case (Cons x es)
  show ?case
  proof (cases "e = x")
    case True
    then show ?thesis using Cons.prems by (simp add: drawsNow_stored mapHas_addElements)
  next
    case False
    then have "e \<in> set es" using Cons.prems by simp
    from Cons.IH[OF this, of "snd (addElement x s)"] Cons.prems(2)
    show ?thesis by (simp add: drawsNow_keeps addElement_keeps)
  qed
qed

lemma loaded_in_events:
  "(e, Loaded n) \<in> set evs \<Longrightarrow>
   mapHas (elemId (elementObjects s e)) (elements (snd (loadCallbacks evs s)))"
proof (induction evs arbitrary: s)
  case Nil
  then show ?case by simp
next
  case (Cons ev evs)
  show ?case
  proof (cases "ev = (e, Loaded n)")
    case True
    have "mapHas (elemId (elementObjects s e)) (elements (snd (loadCallback (e, Loaded n) s)))"
      by (simp add: loadCallback_def elements_add mapHas_mapSet)
    then show ?thesis using True by (simp add: mapHas_loadCallbacks)
  next
    case False
    then have "(e, Loaded n) \<in> set evs" using Cons.prems by simp
    from Cons.IH[OF this, of "snd (loadCallback ev s)"]
    show ?thesis by (simp add: loadCallback_keeps)
  qed
qed

lemma addElement_promise:
  "fst (addElement e s) = (if etype (elementObjects s e) = Model then Pending else Resolved)"
  by (cases "etype (elementObjects s e)") (auto simp: add_defs Let_def split: option.splits)

text \<open>
  Claim C8. The loader's callbacks \<open>evs\<close> arrive in any order, each for a model element.
  A failed load rejects that element's promise and leaves the manager as it was, so the
  element is not inserted. The manager after the batch and its callbacks is the one the
  batch without the failing model elements gives: every element that the switch stores at
  once, and every model whose load succeeds, is in the element map. Only a model element
  leaves its promise pending on the load; every other variant is resolved by the call
  itself.
\<close>

theorem failed_model_load_isolated:
  assumes "\<forall>ev \<in> set evs. etype (elementObjects s (fst ev)) = Model"
  shows "loadCallback (e, LoadError) s = (Rejected, s) \<and>
         snd (loadCallbacks evs (snd (addElements es s))) =
           snd (loadCallbacks (filter (\<lambda>ev. snd ev \<noteq> LoadError) evs)
                  (snd (addElements (filter (\<lambda>x. (x, LoadError) \<notin> set evs) es) s))) \<and>
         (\<forall>x \<in> set es. drawsNow (elementObjects s x) \<longrightarrow>
             getElement (elemId (elementObjects s x))
               (snd (loadCallbacks evs (snd (addElements es s)))) \<noteq> None) \<and>
         (\<forall>x n. (x, Loaded n) \<in> set evs \<longrightarrow>
             getElement (elemId (elementObjects s x))
               (snd (loadCallbacks evs (snd (addElements es s)))) \<noteq> None) \<and>
         (etype (elementObjects s e) = Model \<longrightarrow> addElement e s = (Pending, s)) \<and>
         (etype (elementObjects s e) \<noteq> Model \<longrightarrow> fst (addElement e s) = Resolved)"
proof -
  have skip: "snd (addElements (filter (\<lambda>x. (x, LoadError) \<notin> set evs) es) s) = snd (addElements es s)"
    using assms by (intro addElements_skip_models) force
  have a: "\<forall>x \<in> set es. drawsNow (elementObjects s x) \<longrightarrow>
             getElement (elemId (elementObjects s x))
               (snd (loadCallbacks evs (snd (addElements es s)))) \<noteq> None"
    using mapHas_loadCallbacks[OF drawsNow_in_batch] by (auto simp: getElement_def mapHas_def)
  have b: "\<forall>x n. (x, Loaded n) \<in> set evs \<longrightarrow>
             getElement (elemId (elementObjects s x))
               (snd (loadCallbacks evs (snd (addElements es s)))) \<noteq> None"
    using loaded_in_events[of _ _ evs "snd (addElements es s)"] addElements_keeps[of es s]
    by (auto simp: getElement_def mapHas_def)
  have c: "etype (elementObjects s e) = Model \<longrightarrow> addElement e s = (Pending, s)"
    by (simp add: addElement_def addModel_def)
  show ?thesis
    using loadCallback_failed loadCallbacks_drop_failed[of evs "snd (addElements es s)"] skip a b c
    by (simp add: addElement_promise)
qed

text \<open>
  Witness for C8: a label, a model whose load fails, a spot and a model whose load
  succeeds; the callbacks arrive in the opposite order of the requests.
\<close>

theorem failed_model_load_isolated_witness:
  "etype (elementObjects batchManager 3) = Model \<and> etype (elementObjects batchManager 1) = Model \<and>
   loadCallback (1, LoadError) batchManager = (Rejected, batchManager) \<and>
   mapKeys (elements (snd (loadCallbacks demoLoads (snd (addElements demoBatch batchManager))))) =
     [''l1'', ''s1'', ''m2''] \<and>
   fst (addElement 1 batchManager) = Pending"
proof -
  have m: "etype (elementObjects batchManager 3) = Model" "etype (elementObjects batchManager 1) = Model"
    by (simp_all add: batchManager_def example_defs)
  then have h: "\<forall>ev \<in> set demoLoads. etype (elementObjects batchManager (fst ev)) = Model"
    by (simp add: demoLoads_def)
  note t = failed_model_load_isolated[OF h, of 1 demoBatch]
  have r: "loadCallback (1, LoadError) batchManager = (Rejected, batchManager)"
    using t by blast
  have p: "fst (addElement 1 batchManager) = Pending"
    using t m by simp
  have "snd (loadCallbacks demoLoads (snd (addElements demoBatch batchManager))) =
        snd (loadCallbacks (filter (\<lambda>ev. snd ev \<noteq> LoadError) demoLoads)
               (snd (addElements (filter (\<lambda>x. (x, LoadError) \<notin> set demoLoads) demoBatch) batchManager)))"
    using t by blast
  then have k: "mapKeys (elements (snd (loadCallbacks demoLoads (snd (addElements demoBatch batchManager))))) =
     [''l1'', ''s1'', ''m2'']"
    by (simp add: demoLoads_def demoBatch_def batchManager_def example_defs add_defs loadCallback_def
        gltfOnLoad_def mapKeys_def Let_def)
  show ?thesis using m r k p by simp
qed

section \<open>The pulsing ring\<close>

text \<open>
  Once \<open>_s\<close> is a number, a tick adds 0.01 to it, sets the scale to the sum, and either
  sets the opacity to 2 minus the sum (sum at most 2) or resets \<open>_s\<close> to 1.
\<close>

lemma stepRing_number:
  "ring_s m = Num x \<Longrightarrow>
   stepRing m =
     (if x + 0.01 \<le> 2
      then m\<lparr> ring_s := Num (x + 0.01),
             ringScale := (Num (x + 0.01), Num (x + 0.01), Num (x + 0.01)),
             ringOpacity := Num (2 - (x + 0.01)) \<rparr>
      else m\<lparr> ring_s := Num 1,
             ringScale := (Num (x + 0.01), Num (x + 0.01), Num (x + 0.01)) \<rparr>)"
  by (simp add: stepRing_def Let_def)

text \<open>
  Claim C9 at the first tick after \<open>addSpot\<close>. \<open>drawSpot\<close> gives the ring no \<open>_s\<close>, so
  \<open>mesh._s += 0.01\<close> yields \<open>NaN\<close>: the scale is set to \<open>NaN\<close>, the opacity is not
  touched, and \<open>_s\<close> is reset to 1. The parameter is not increased by 0.01 and the scale
  applied is not a number.
\<close>

theorem updateAnimations_first_tick_not_a_number:
  "animatedSpots spotManager =
     [\<lparr> ringRef = 1, ring_s = Undefined, ringScale = (Num 1, Num 1, Num 1), ringOpacity = Num 1 \<rparr>] \<and>
   animatedSpots (updateAnimations delta spotManager) =
     [\<lparr> ringRef = 1, ring_s = Num 1, ringScale = (NaN, NaN, NaN), ringOpacity = Num 1 \<rparr>]"
  by (simp add: spotManager_def example_defs add_defs updateAnimations_def stepRing_def Let_def)

section \<open>Facts about region highlighting\<close>

lemmas scene_defs = highlightManager_def newMapManager_def demoScene_def province_def extrudeMesh_def
  borderLine_def demoMaterials_def phong_def plainMaterial_def emptyScene_def

lemmas highlight_defs = highlightRegion_def clearRegionHighlight_def restoreRegionMaterial_def
  clearTimeout_def findRegionByName_def matchesRegion_def collectMeshes_def meshOriginals_def
  topMaterial_def mapHas_def mapDelete_def animate_def fireTimer_def

text \<open>What a colour transition touches: one material and the queue of frame callbacks.\<close>

lemma animate_frame:
  "mapObject3D (animate tw s) = mapObject3D s"
  "highlightedRegions (animate tw s) = highlightedRegions s"
  "timers (animate tw s) = timers s"
  "nextTimer (animate tw s) = nextTimer s"
  by (simp_all add: animate_def Let_def)

lemma animate_other_material:
  "twMaterial tw \<noteq> r \<Longrightarrow> materials (animate tw s) r = materials s r"
  by (simp add: animate_def Let_def)

lemma restoreMeshes_frame:
  "mapObject3D (restoreMeshes ms origs i s) = mapObject3D s \<and>
   highlightedRegions (restoreMeshes ms origs i s) = highlightedRegions s \<and>
   timers (restoreMeshes ms origs i s) = timers s \<and>
   nextTimer (restoreMeshes ms origs i s) = nextTimer s"
  by (induction ms origs i s rule: restoreMeshes.induct)
     (auto simp: animate_frame Let_def split: option.splits)

lemma restoreMeshes_other_material:
  "\<forall>m \<in> set ms. topMaterial m \<noteq> Some r \<Longrightarrow>
   materials (restoreMeshes ms origs i s) r = materials s r"
  by (induction ms origs i s rule: restoreMeshes.induct)
     (auto simp: animate_other_material Let_def split: option.splits)

lemma animate_frames_grow: "set (frames s) \<subseteq> set (frames (animate tw s))"
  by (auto simp: animate_def Let_def)

lemma restoreMeshes_frames_grow: "set (frames s) \<subseteq> set (frames (restoreMeshes ms origs i s))"
proof (induction ms arbitrary: i s)
  case Nil
  show ?case by simp
next
  case (Cons mesh rest)
  have IH: "set (frames s') \<subseteq> set (frames (restoreMeshes rest origs j s'))" for j s'
    by (rule Cons)
  have IH2: "set (frames s) \<subseteq> set (frames (restoreMeshes rest origs j (animate tw s)))" for j tw
    using animate_frames_grow[of s tw] IH[of "animate tw s" j] by blast
  show ?case
    using IH IH2 by (simp add: Let_def split: option.splits)
qed

lemma fold_animate_frame:
  "mapObject3D (fold animate tws s) = mapObject3D s \<and>
   highlightedRegions (fold animate tws s) = highlightedRegions s \<and>
   timers (fold animate tws s) = timers s \<and>
   nextTimer (fold animate tws s) = nextTimer s"
  by (induction tws arbitrary: s) (simp_all add: animate_frame)

lemma runFrame_frame:
  "mapObject3D (runFrame s) = mapObject3D s"
  "highlightedRegions (runFrame s) = highlightedRegions s"
  "timers (runFrame s) = timers s"
  by (simp_all add: runFrame_def fold_animate_frame)

lemma restoreRegionMaterial_frame:
  "mapObject3D (restoreRegionMaterial n s) = mapObject3D s"
  "timers (restoreRegionMaterial n s) = timers s"
  "nextTimer (restoreRegionMaterial n s) = nextTimer s"
  by (simp_all add: restoreRegionMaterial_def restoreMeshes_frame Let_def split: option.splits)

lemma highlightedRegions_restore:
  "highlightedRegions (restoreRegionMaterial n s) = mapDelete n (highlightedRegions s)"
  by (simp add: restoreRegionMaterial_def restoreMeshes_frame Let_def mapDelete_absent split: option.splits)

lemma clearRegionHighlight_frame:
  "mapObject3D (snd (clearRegionHighlight n s)) = mapObject3D s"
  "highlightedRegions (snd (clearRegionHighlight n s)) = mapDelete n (highlightedRegions s)"
  by (simp_all add: clearRegionHighlight_def restoreRegionMaterial_frame highlightedRegions_restore
      clearTimeout_def mapDelete_absent split: option.splits)

lemma clearRegionHighlight_fst:
  "fst (clearRegionHighlight n s) = mapHas n (highlightedRegions s)"
  by (simp add: clearRegionHighlight_def mapHas_def split: option.splits)

text \<open>Whether \<open>highlightRegion\<close> succeeds depends on the scene alone.\<close>

lemma highlightRegion_fst:
  "fst (highlightRegion n d s) = (\<not> noHighlightable n (mapObject3D s))"
  by (simp add: highlightRegion_def noHighlightable_def clearRegionHighlight_frame Let_def
      split: option.splits)

lemma highlightRegion_scene: "mapObject3D (snd (highlightRegion n d s)) = mapObject3D s"
  by (simp add: highlightRegion_def clearRegionHighlight_frame Let_def split: option.splits)

lemma mapHas_mapDelete_same: "\<not> mapHas k (mapDelete k m)"
  by (simp add: mapHas_def mapGet_mapDelete_same)

lemma highlightedRegions_highlight:
  "\<exists>info. highlightedRegions (snd (highlightRegion n d s)) =
     (if fst (highlightRegion n d s)
      then mapSet n info (mapDelete n (highlightedRegions s))
      else mapDelete n (highlightedRegions s))"
proof (cases "mapHas n (highlightedRegions s)")
  case True
  then show ?thesis
    by (auto simp: highlightRegion_def clearRegionHighlight_frame Let_def split: option.splits)
next
  case False
  then have "mapDelete n (highlightedRegions s) = highlightedRegions s"
    by (simp add: mapHas_def mapDelete_absent)
  with False show ?thesis
    by (auto simp: highlightRegion_def Let_def split: option.splits)
qed

lemma fireTimer_frame:
  "mapObject3D (fireTimer h s) = mapObject3D s"
  "\<exists>n. highlightedRegions (fireTimer h s) = mapDelete n (highlightedRegions s) \<or>
       highlightedRegions (fireTimer h s) = highlightedRegions s"
  by (auto simp: fireTimer_def restoreRegionMaterial_frame highlightedRegions_restore clearTimeout_def
      split: option.splits)

text \<open>The keys of the highlight map stay distinct.\<close>

lemma keys_mapSet: "set (mapKeys (mapSet k v m)) = insert k (set (mapKeys m))"
  by (induction m) (force simp: mapKeys_def split: if_splits)+

lemma distinct_mapSet: "distinct (mapKeys m) \<Longrightarrow> distinct (mapKeys (mapSet k v m))"
proof (induction m)
  case Nil
  show ?case by (simp add: mapKeys_def)
next
  case (Cons p m)
  obtain k' v' where p: "p = (k', v')" by (cases p)
  show ?case
  proof (cases "k' = k")
    case True
    then show ?thesis using Cons.prems p by (simp add: mapKeys_def)
  next
    case False
    have "k' \<notin> set (mapKeys (mapSet k v m))"
      using Cons.prems p False by (simp add: keys_mapSet) (simp add: mapKeys_def)
    then show ?thesis using Cons p False by (simp add: mapKeys_def)
  qed
qed

lemma distinct_mapDelete: "distinct (mapKeys m) \<Longrightarrow> distinct (mapKeys (mapDelete k m))"
  by (simp add: mapKeys_def mapDelete_def distinct_map_filter)

lemma distinct_applyEvent:
  assumes "distinct (mapKeys (highlightedRegions s))"
  shows "distinct (mapKeys (highlightedRegions (applyEvent ev s)))"
proof (cases ev)
  case (CallHighlightRegion n d)
  obtain info where "highlightedRegions (snd (highlightRegion n d s)) =
     (if fst (highlightRegion n d s)
      then mapSet n info (mapDelete n (highlightedRegions s))
      else mapDelete n (highlightedRegions s))"
    using highlightedRegions_highlight by blast
  then show ?thesis using assms CallHighlightRegion
    by (simp add: distinct_mapSet distinct_mapDelete)
next
  case (CallClearRegionHighlight n)
  then show ?thesis using assms by (simp add: clearRegionHighlight_frame distinct_mapDelete)
next
  case (TimerDue h)
  then show ?thesis using assms fireTimer_frame(2)[of h s] by (auto simp: distinct_mapDelete)
next
  case AnimationFrame
  then show ?thesis using assms by (simp add: runFrame_frame)
qed

lemma distinct_runEvents:
  "distinct (mapKeys (highlightedRegions s)) \<Longrightarrow>
   distinct (mapKeys (highlightedRegions (runEvents evs s)))"
  unfolding runEvents_def
  by (induction evs arbitrary: s) (simp_all add: distinct_applyEvent)

lemma count_list_distinct: "distinct xs \<Longrightarrow> count_list xs x = (if x \<in> set xs then 1 else 0)"
  by (induction xs) auto

lemma mapHas_keys: "mapHas k m \<longleftrightarrow> k \<in> set (mapKeys m)"
  by (induction m) (auto simp: mapHas_def mapKeys_def)

text \<open>The highlight methods leave the element map and the element objects alone, so they keep the invariant.\<close>

lemma restoreMeshes_elements:
  "elements (restoreMeshes ms origs i s) = elements s \<and>
   elementObjects (restoreMeshes ms origs i s) = elementObjects s"
  by (induction ms origs i s rule: restoreMeshes.induct)
     (auto simp: animate_def Let_def split: option.splits)

lemma fold_animate_elements:
  "elements (fold animate tws s) = elements s \<and>
   elementObjects (fold animate tws s) = elementObjects s"
  by (induction tws arbitrary: s) (simp_all add: animate_def Let_def)

lemma restoreRegionMaterial_elements:
  "elements (restoreRegionMaterial n s) = elements s \<and>
   elementObjects (restoreRegionMaterial n s) = elementObjects s"
  by (simp add: restoreRegionMaterial_def restoreMeshes_elements Let_def split: option.splits)

lemma clearRegionHighlight_elements:
  "elements (snd (clearRegionHighlight n s)) = elements s \<and>
   elementObjects (snd (clearRegionHighlight n s)) = elementObjects s"
  by (simp add: clearRegionHighlight_def restoreRegionMaterial_elements clearTimeout_def
      split: option.splits)

lemma elements_applyEvent:
  "elements (applyEvent ev s) = elements s \<and> elementObjects (applyEvent ev s) = elementObjects s"
proof (cases ev)
  case (CallHighlightRegion n d)
  then show ?thesis
    by (simp add: highlightRegion_def clearRegionHighlight_elements Let_def split: option.splits)
next
  case (CallClearRegionHighlight n)
  then show ?thesis by (simp add: clearRegionHighlight_elements)
next
  case (TimerDue h)
  then show ?thesis
    by (simp add: fireTimer_def restoreRegionMaterial_elements clearTimeout_def split: option.splits)
next
  case AnimationFrame
  then show ?thesis by (simp add: runFrame_def fold_animate_elements)
qed

lemma placed_applyEvent: "elementsPlaced s \<Longrightarrow> elementsPlaced (applyEvent ev s)"
  by (simp add: elementsPlaced_def elements_applyEvent)

text \<open>
  While the scene is the one the manager was built over, every name in the highlight map
  is one that \<open>highlightRegion\<close> can find with a mesh to highlight.
\<close>

lemma keys_mapDelete: "set (mapKeys (mapDelete k m)) \<subseteq> set (mapKeys m)"
  by (auto simp: mapKeys_def mapDelete_def)

lemma findable_applyEvent:
  assumes "\<forall>n \<in> set (mapKeys (highlightedRegions s)). \<not> noHighlightable n (mapObject3D s)"
  shows "mapObject3D (applyEvent ev s) = mapObject3D s \<and>
         (\<forall>n \<in> set (mapKeys (highlightedRegions (applyEvent ev s))).
            \<not> noHighlightable n (mapObject3D s))"
proof (cases ev)
  case (CallHighlightRegion n d)
  obtain info where h: "highlightedRegions (snd (highlightRegion n d s)) =
     (if fst (highlightRegion n d s)
      then mapSet n info (mapDelete n (highlightedRegions s))
      else mapDelete n (highlightedRegions s))"
    using highlightedRegions_highlight by blast
  show ?thesis
    using assms CallHighlightRegion h keys_mapDelete[of n "highlightedRegions s"]
    by (auto simp: highlightRegion_scene keys_mapSet highlightRegion_fst split: if_splits)
next
  case (CallClearRegionHighlight n)
  then show ?thesis
    using assms keys_mapDelete[of n "highlightedRegions s"]
    by (auto simp: clearRegionHighlight_frame)
next
  case (TimerDue h)
  then show ?thesis
    using assms fireTimer_frame[of h s] keys_mapDelete[of _ "highlightedRegions s"]
    by auto blast
next
  case AnimationFrame
  then show ?thesis using assms by (simp add: runFrame_frame)
qed

lemma findable_fold:
  "\<forall>n \<in> set (mapKeys (highlightedRegions s)). \<not> noHighlightable n (mapObject3D s) \<Longrightarrow>
   mapObject3D (fold applyEvent evs s) = mapObject3D s \<and>
   (\<forall>n \<in> set (mapKeys (highlightedRegions (fold applyEvent evs s))).
      \<not> noHighlightable n (mapObject3D s))"
proof (induction evs arbitrary: s)
  case Nil
  then show ?case by simp
next
  case (Cons ev evs)
  have a: "mapObject3D (applyEvent ev s) = mapObject3D s"
    and b: "\<forall>n \<in> set (mapKeys (highlightedRegions (applyEvent ev s))).
              \<not> noHighlightable n (mapObject3D (applyEvent ev s))"
    using findable_applyEvent[OF Cons.prems, of ev] by simp_all
  show ?case using Cons.IH[OF b] a by simp
qed

lemma reachable_records_findable:
  "mapObject3D (runEvents evs (newMapManager scene mats)) = scene \<and>
   (mapHas n (highlightedRegions (runEvents evs (newMapManager scene mats))) \<longrightarrow>
      \<not> noHighlightable n scene)"
proof -
  have "\<forall>n \<in> set (mapKeys (highlightedRegions (newMapManager scene mats))).
          \<not> noHighlightable n (mapObject3D (newMapManager scene mats))"
    by (simp add: newMapManager_def mapKeys_def)
  from findable_fold[OF this, of evs] show ?thesis
    by (simp add: runEvents_def mapHas_keys) (simp add: newMapManager_def)
qed

text \<open>The example states, evaluated.\<close>

lemma highlightedB_eval:
  "highlightedRegions highlightedB = [(''B'', recordB)]"
  "timers highlightedB = [(0, ''B'', 3000)]"
  "materials highlightedB 4 =
     \<lparr> matKind = MeshPhongMaterial, matColor = highlightColor, matEmissive = highlightEmissive \<rparr>"
  "mapObject3D highlightedB = demoScene"
  "frames highlightedB = []"
  by (simp_all add: highlightedB_def recordB_def scene_defs highlight_defs Let_def)

lemma highlightedA_eval:
  "fst (highlightRegion ''A'' 3000 highlightManager) = True"
  "matColor (materials highlightManager 0) = (1/5, 2/5, 3/5)"
  "matColor (materials highlightManager 2) = (1/10, 3/10, 1/2)"
  "matColor (materials highlightedA 0) = highlightColor"
  "matColor (materials highlightedA 2) = highlightColor"
  "timers highlightedA = [(0, ''A'', 3000)]"
  "highlightedRegions (fireTimer 0 highlightedA) = []"
  "frames (fireTimer 0 highlightedA) =
     [\<lparr> twMaterial = 0, startColor = highlightColor, endColor = (1 / 5, 2 / 5, 3 / 5),
        startEmissive = highlightEmissive, endEmissive = (0, 0, 0), tween_t = 1 / 50 \<rparr>]"
  "matColor (materials (fireTimer 0 highlightedA) 2) = highlightColor"
  by (simp_all add: highlightedA_def scene_defs highlight_defs Let_def)

section \<open>Animation frames of a revert\<close>

lemma runFrames_numeral: "runFrames (numeral k) s = runFrames (pred_numeral k) (runFrame s)"
  by (simp add: numeral_eq_Suc)

lemma fold_animate_targets:
  "twMaterial ` set (frames (fold animate tws s)) \<subseteq> twMaterial ` set (frames s) \<union> twMaterial ` set tws"
proof (induction tws arbitrary: s)
  case Nil
  show ?case by simp
next
  case (Cons tw tws)
  have a: "twMaterial ` set (frames (animate tw s)) \<subseteq> twMaterial ` set (frames s) \<union> {twMaterial tw}"
    by (auto simp: animate_def Let_def)
  have b: "twMaterial ` set (frames (fold animate tws (animate tw s))) \<subseteq>
           twMaterial ` set (frames (animate tw s)) \<union> twMaterial ` set tws"
    by (rule Cons)
  show ?case using a b by simp blast
qed

lemma fold_animate_other_material:
  "r \<notin> twMaterial ` set tws \<Longrightarrow> materials (fold animate tws s) r = materials s r"
  by (induction tws arbitrary: s) (auto simp: animate_other_material)

lemma runFrame_targets: "twMaterial ` set (frames (runFrame s)) \<subseteq> twMaterial ` set (frames s)"
  using fold_animate_targets[of "frames s" "s\<lparr> frames := [] \<rparr>"] by (simp add: runFrame_def)

lemma runFrame_other_material:
  "r \<notin> twMaterial ` set (frames s) \<Longrightarrow> materials (runFrame s) r = materials s r"
  by (simp add: runFrame_def fold_animate_other_material)

text \<open>A material that no queued transition works on keeps its colours through every frame.\<close>

lemma runFrames_other_material:
  "r \<notin> twMaterial ` set (frames s) \<Longrightarrow> materials (runFrames n s) r = materials s r"
proof (induction n arbitrary: s)
  case 0
  show ?case by simp
next
  case (Suc n)
  have "r \<notin> twMaterial ` set (frames (runFrame s))"
    using Suc.prems runFrame_targets[of s] by blast
  then show ?case using Suc.IH[of "runFrame s"] Suc.prems by (simp add: runFrame_other_material)
qed

text \<open>
  In the example the first polygon of province \<open>A\<close> does revert: its transition started
  with the timer's callback and ends 49 frames later on the snapshot's colour.
\<close>

lemma first_mesh_reverts:
  "frames (runFrames 49 (fireTimer 0 highlightedA)) = [] \<and>
   matColor (materials (runFrames 49 (fireTimer 0 highlightedA)) 0) = (1/5, 2/5, 3/5)"
  by (simp add: highlightedA_def scene_defs highlight_defs runFrame_def Let_def runFrames_numeral)

text \<open>
  Claim C1 on province \<open>A\<close>, whose two polygons each carry the material array
  \<open>[MeshPhongMaterial, ShaderMaterial]\<close>. The highlight succeeds and turns both top
  materials to the highlight colour. When the timer comes due the record is discarded,
  but the second polygon's top material (material 2) is compared with the snapshot at
  index 1, the clone of the first polygon's side material, so no transition is started
  for it: after any number of frames it still has the highlight colour and not the
  colour snapshotted before the highlight.
\<close>

theorem second_mesh_never_reverts:
  "fst (highlightRegion ''A'' 3000 highlightManager) = True \<and>
   matColor (materials highlightManager 2) = (1/10, 3/10, 1/2) \<and>
   matColor (materials highlightedA 2) = highlightColor \<and>
   timers highlightedA = [(0, ''A'', 3000)] \<and>
   getHighlightedRegions (fireTimer 0 highlightedA) = [] \<and>
   matColor (materials (runFrames n (fireTimer 0 highlightedA)) 2) = highlightColor \<and>
   highlightColor \<noteq> (1/10, 3/10, 1/2)"
proof -
  have "matColor (materials (runFrames n (fireTimer 0 highlightedA)) 2) = highlightColor"
    using runFrames_other_material[of 2 "fireTimer 0 highlightedA" n] by (simp add: highlightedA_eval)
  moreover have "highlightColor \<noteq> (1/10, 3/10, 1/2)"
    by (simp add: highlightColor_def setHex_def)
  ultimately show ?thesis
    by (simp add: highlightedA_eval getHighlightedRegions_def mapKeys_def)
qed

text \<open>
  The keys of the highlight map: after any history of calls, timers coming due and
  animation frames on a new manager no region name occurs more than once, and when
  \<open>highlightRegion\<close> succeeds for a name, a second call for it clears the record of the
  first, succeeds as well and leaves one record for the name.
\<close>

lemma one_record_per_name_in_histories:
  "count_list (getHighlightedRegions (runEvents evs (newMapManager scene mats))) regionName \<le> 1 \<and>
   (fst (highlightRegion regionName d1 (runEvents evs (newMapManager scene mats))) \<longrightarrow>
      fst (clearRegionHighlight regionName
             (snd (highlightRegion regionName d1 (runEvents evs (newMapManager scene mats))))) \<and>
      highlightRegion regionName d2
             (snd (highlightRegion regionName d1 (runEvents evs (newMapManager scene mats)))) =
        highlightRegion regionName d2
             (snd (clearRegionHighlight regionName
                (snd (highlightRegion regionName d1 (runEvents evs (newMapManager scene mats)))))) \<and>
      fst (highlightRegion regionName d2
             (snd (highlightRegion regionName d1 (runEvents evs (newMapManager scene mats))))) \<and>
      count_list (getHighlightedRegions (snd (highlightRegion regionName d2
             (snd (highlightRegion regionName d1 (runEvents evs (newMapManager scene mats)))))))
        regionName = 1)"
proof -
  define s where "s = runEvents evs (newMapManager scene mats)"
  define s1 where "s1 = snd (highlightRegion regionName d1 s)"
  define s2 where "s2 = snd (highlightRegion regionName d2 s1)"
  have d0: "distinct (mapKeys (highlightedRegions (newMapManager scene mats)))"
    by (simp add: newMapManager_def mapKeys_def)
  have d: "distinct (mapKeys (highlightedRegions s))"
    unfolding s_def by (rule distinct_runEvents[OF d0])
  have d1: "distinct (mapKeys (highlightedRegions s1))"
    using distinct_applyEvent[OF d, of "CallHighlightRegion regionName d1"] by (simp add: s1_def)
  have d2: "distinct (mapKeys (highlightedRegions s2))"
    using distinct_applyEvent[OF d1, of "CallHighlightRegion regionName d2"] by (simp add: s2_def)
  have a: "count_list (getHighlightedRegions s) regionName \<le> 1"
    by (simp add: getHighlightedRegions_def count_list_distinct[OF d])
  have b: "fst (clearRegionHighlight regionName s1) \<and>
           highlightRegion regionName d2 s1 =
             highlightRegion regionName d2 (snd (clearRegionHighlight regionName s1)) \<and>
           fst (highlightRegion regionName d2 s1) \<and>
           count_list (getHighlightedRegions s2) regionName = 1"
    if ok: "fst (highlightRegion regionName d1 s)"
  proof -
    obtain info where "highlightedRegions s1 = mapSet regionName info (mapDelete regionName (highlightedRegions s))"
      using highlightedRegions_highlight[of regionName d1 s] ok by (auto simp: s1_def)
    then have has1: "mapHas regionName (highlightedRegions s1)"
      by (simp add: mapHas_mapSet)
    then have c1: "fst (clearRegionHighlight regionName s1)"
      by (simp add: clearRegionHighlight_fst)
    have "\<not> mapHas regionName (highlightedRegions (snd (clearRegionHighlight regionName s1)))"
      by (simp add: clearRegionHighlight_frame mapHas_mapDelete_same)
    then have c2: "highlightRegion regionName d2 s1 =
                   highlightRegion regionName d2 (snd (clearRegionHighlight regionName s1))"
      using has1 by (simp add: highlightRegion_def)
    have c3: "fst (highlightRegion regionName d2 s1)"
      using ok by (simp add: highlightRegion_fst s1_def highlightRegion_scene)
    obtain info2 where "highlightedRegions s2 = mapSet regionName info2 (mapDelete regionName (highlightedRegions s1))"
      using highlightedRegions_highlight[of regionName d2 s1] c3 by (auto simp: s2_def)
    then have "regionName \<in> set (mapKeys (highlightedRegions s2))"
      by (simp add: keys_mapSet)
    then have c4: "count_list (getHighlightedRegions s2) regionName = 1"
      by (simp add: getHighlightedRegions_def count_list_distinct[OF d2])
    show ?thesis using c1 c2 c3 c4 by simp
  qed
  show ?thesis using a b unfolding s_def s1_def s2_def by blast
qed


text \<open>
  Claim C2 on province \<open>B\<close>, highlighted twice in succession. Both calls succeed and one
  record is left, but the second call does not revert the old highlight before it
  installs the new one: \<open>clearRegionHighlight\<close> only takes the first interpolation step
  and leaves the rest of the old transition queued. So the new record's snapshot is the
  colour after that step and not the colour the region had before it was highlighted;
  the queued transition then runs over the new highlight, so that the region shows its
  old colour while its record is active; and when the second timer has come due and its
  transition has run, the region is left with the snapshotted colour, one step away from
  the highlight colour, and no record.
\<close>

theorem second_highlight_snapshots_unfinished_revert:
  "fst (highlightRegion ''B'' 3000 highlightManager) = True \<and>
   fst (highlightRegion ''B'' 3000 highlightedB) = True \<and>
   matColor (materials highlightManager 4) = (0, 1/2, 1) \<and>
   highlightedRegions highlightedTwice =
     [(''B'', \<lparr> meshes = [\<lparr> meshRef = 14, material = MatArray [Some 4, Some 5],
                              isChangeColor = True \<rparr>],
                originalMaterials =
                  [\<lparr> matKind = MeshPhongMaterial, matColor = (49/50, 853/1020, 1/50),
                     matEmissive = (98/375, 98/375, 0) \<rparr>, plainMaterial],
                timeoutId = 1 \<rparr>)] \<and>
   timers highlightedTwice = [(1, ''B'', 3000)] \<and>
   map twMaterial (frames highlightedTwice) = [4] \<and>
   map endColor (frames highlightedTwice) = [(0, 1/2, 1)] \<and>
   matColor (materials highlightedTwice 4) = highlightColor \<and>
   getHighlightedRegions (runFrames 49 highlightedTwice) = [''B''] \<and>
   matColor (materials (runFrames 49 highlightedTwice) 4) = (0, 1/2, 1) \<and>
   getHighlightedRegions (runFrames 49 (fireTimer 1 (runFrames 49 highlightedTwice))) = [] \<and>
   frames (runFrames 49 (fireTimer 1 (runFrames 49 highlightedTwice))) = [] \<and>
   matColor (materials (runFrames 49 (fireTimer 1 (runFrames 49 highlightedTwice))) 4) =
     (49/50, 853/1020, 1/50)"
  by (simp add: highlightedTwice_def highlightedB_def scene_defs highlight_defs runFrame_def Let_def
      runFrames_numeral getHighlightedRegions_def mapKeys_def highlightColor_def
      highlightEmissive_def setHex_def)

text \<open>
  Claim C5 as stated fails when the named region has a record and the lookup fails (the
  caller has changed the scene since): \<open>highlightRegion\<close> clears the record before it
  looks the region up, so the call returns false after it has cancelled the timer,
  started the revert of the material and removed the record.
\<close>

theorem highlightRegion_failure_clears_record:
  "noHighlightable ''B'' (mapObject3D highlightedGone) \<and>
   fst (highlightRegion ''B'' 3000 highlightedGone) = False \<and>
   getHighlightedRegions highlightedGone = [''B''] \<and>
   getHighlightedRegions (snd (highlightRegion ''B'' 3000 highlightedGone)) = [] \<and>
   timers highlightedGone = [(0, ''B'', 3000)] \<and>
   timers (snd (highlightRegion ''B'' 3000 highlightedGone)) = [] \<and>
   matColor (materials highlightedGone 4) = highlightColor \<and>
   matColor (materials (snd (highlightRegion ''B'' 3000 highlightedGone)) 4) \<noteq> highlightColor"
  by (simp add: highlightedGone_def highlightedB_eval recordB_def noHighlightable_def
      getHighlightedRegions_def mapKeys_def emptyScene_def highlight_defs Let_def
      phong_def plainMaterial_def highlightColor_def highlightEmissive_def setHex_def)

text \<open>
  Claim C5, amended. When no scene node matches the name, or the matched node has no
  highlightable mesh, \<open>highlightRegion\<close> returns false. If the name has no record in the
  highlight map the manager is unchanged: no material is modified, no timer is
  scheduled, the highlight map is as before; other regions may be highlighted. That is so
  in every state reached from a new manager by calls, timers and frames, where a name
  with a record can always be found. If the name has a record, the record is first cleared
  as \<open>clearRegionHighlight\<close> does, and nothing else changes.
\<close>

theorem highlightRegion_failure_effects:
  assumes "noHighlightable regionName (mapObject3D s)"
  shows "highlightRegion regionName duration s =
           (False, if mapHas regionName (highlightedRegions s)
                   then snd (clearRegionHighlight regionName s) else s) \<and>
         (\<not> mapHas regionName (highlightedRegions s) \<longrightarrow>
            highlightRegion regionName duration s = (False, s)) \<and>
         (s = runEvents evs (newMapManager scene mats) \<longrightarrow>
            highlightRegion regionName duration s = (False, s))"
proof -
  have a: "highlightRegion regionName duration s =
           (False, if mapHas regionName (highlightedRegions s)
                   then snd (clearRegionHighlight regionName s) else s)"
    using assms
    by (auto simp: highlightRegion_def noHighlightable_def clearRegionHighlight_frame Let_def
        split: option.splits)
  have b: "\<not> mapHas regionName (highlightedRegions s)" if "s = runEvents evs (newMapManager scene mats)"
    using reachable_records_findable[of evs scene mats regionName] assms that by auto
  show ?thesis using a b by auto
qed

text \<open>
  Witness for C5: the name \<open>Z\<close> matches nothing in the example scene while province \<open>B\<close>
  is highlighted, in a state reached from a new manager; and the name \<open>B\<close> with its
  record, after the province has been taken out of the scene.
\<close>

theorem highlightRegion_failure_effects_witness:
  "noHighlightable ''Z'' (mapObject3D highlightedB) \<and>
   getHighlightedRegions highlightedB = [''B''] \<and>
   highlightedB = runEvents [CallHighlightRegion ''B'' 3000] (newMapManager demoScene demoMaterials) \<and>
   highlightRegion ''Z'' 3000 highlightedB = (False, highlightedB) \<and>
   noHighlightable ''B'' (mapObject3D highlightedGone) \<and>
   mapHas ''B'' (highlightedRegions highlightedGone) \<and>
   highlightRegion ''B'' 3000 highlightedGone = (False, snd (clearRegionHighlight ''B'' highlightedGone))"
proof -
  have n: "noHighlightable ''Z'' (mapObject3D highlightedB)"
    by (simp add: highlightedB_eval noHighlightable_def scene_defs highlight_defs)
  have k: "getHighlightedRegions highlightedB = [''B'']"
    by (simp add: highlightedB_eval getHighlightedRegions_def mapKeys_def)
  have r: "highlightedB = runEvents [CallHighlightRegion ''B'' 3000] (newMapManager demoScene demoMaterials)"
    by (simp add: highlightedB_def highlightManager_def runEvents_def)
  have z: "highlightRegion ''Z'' 3000 highlightedB = (False, highlightedB)"
    using highlightRegion_failure_effects[OF n, of 3000 "[CallHighlightRegion ''B'' 3000]" demoScene demoMaterials] r
    by blast
  have g: "noHighlightable ''B'' (mapObject3D highlightedGone)"
    by (simp add: highlightedGone_def noHighlightable_def emptyScene_def highlight_defs)
  have h: "mapHas ''B'' (highlightedRegions highlightedGone)"
    by (simp add: highlightedGone_def highlightedB_eval mapHas_def)
  have b: "highlightRegion ''B'' 3000 highlightedGone = (False, snd (clearRegionHighlight ''B'' highlightedGone))"
    using highlightRegion_failure_effects[OF g, of 3000] h by simp
  show ?thesis using n k r z g h b by simp
qed

text \<open>
  What \<open>clearRegionHighlight\<close> does for a name with a record, whatever the region: it
  returns true, the name is no longer among the highlighted regions, no timer with the
  record's handle is pending, and the state is the one the timer's callback would have
  left had the timer come due at once; the first captured mesh's material (when it and
  its snapshot are Phong materials and no later captured mesh shares it) stands at the
  first interpolation step with its transition queued. For a name with no record the call
  returns false and the manager is unchanged.
\<close>

lemma clearRegionHighlight_effects:
  "(mapGet regionName (highlightedRegions s) = Some info \<longrightarrow>
      fst (clearRegionHighlight regionName s) = True \<and>
      regionName \<notin> set (getHighlightedRegions (snd (clearRegionHighlight regionName s))) \<and>
      timeoutId info \<notin> fst ` set (timers (snd (clearRegionHighlight regionName s))) \<and>
      (find (\<lambda>t. fst t = timeoutId info) (timers s) = Some (timeoutId info, regionName, duration) \<longrightarrow>
         snd (clearRegionHighlight regionName s) = fireTimer (timeoutId info) s) \<and>
      (\<forall>mesh rest r original origs.
         meshes info = mesh # rest \<and> topMaterial mesh = Some r \<and>
         originalMaterials info = original # origs \<and>
         matKind (materials s r) = MeshPhongMaterial \<and> matKind original = MeshPhongMaterial \<and>
         (\<forall>m \<in> set rest. topMaterial m \<noteq> Some r) \<longrightarrow>
         matColor (materials (snd (clearRegionHighlight regionName s)) r) =
           lerpColors (matColor (materials s r)) (matColor original) 0.02 \<and>
         matEmissive (materials (snd (clearRegionHighlight regionName s)) r) =
           lerpColors (matEmissive (materials s r)) (matEmissive original) 0.02 \<and>
         \<lparr> twMaterial = r, startColor = matColor (materials s r), endColor = matColor original,
           startEmissive = matEmissive (materials s r), endEmissive = matEmissive original,
           tween_t = 0.02 \<rparr> \<in> set (frames (snd (clearRegionHighlight regionName s))))) \<and>
   (mapGet regionName (highlightedRegions s) = None \<longrightarrow>
      clearRegionHighlight regionName s = (False, s))"
proof -
  have none: "mapGet regionName (highlightedRegions s) = None \<longrightarrow>
      clearRegionHighlight regionName s = (False, s)"
    by (simp add: clearRegionHighlight_def)
  have some: "fst (clearRegionHighlight regionName s) = True \<and>
      regionName \<notin> set (getHighlightedRegions (snd (clearRegionHighlight regionName s))) \<and>
      timeoutId info \<notin> fst ` set (timers (snd (clearRegionHighlight regionName s))) \<and>
      (find (\<lambda>t. fst t = timeoutId info) (timers s) = Some (timeoutId info, regionName, duration) \<longrightarrow>
         snd (clearRegionHighlight regionName s) = fireTimer (timeoutId info) s) \<and>
      (\<forall>mesh rest r original origs.
         meshes info = mesh # rest \<and> topMaterial mesh = Some r \<and>
         originalMaterials info = original # origs \<and>
         matKind (materials s r) = MeshPhongMaterial \<and> matKind original = MeshPhongMaterial \<and>
         (\<forall>m \<in> set rest. topMaterial m \<noteq> Some r) \<longrightarrow>
         matColor (materials (snd (clearRegionHighlight regionName s)) r) =
           lerpColors (matColor (materials s r)) (matColor original) 0.02 \<and>
         matEmissive (materials (snd (clearRegionHighlight regionName s)) r) =
           lerpColors (matEmissive (materials s r)) (matEmissive original) 0.02 \<and>
         \<lparr> twMaterial = r, startColor = matColor (materials s r), endColor = matColor original,
           startEmissive = matEmissive (materials s r), endEmissive = matEmissive original,
           tween_t = 0.02 \<rparr> \<in> set (frames (snd (clearRegionHighlight regionName s))))"
    if rec: "mapGet regionName (highlightedRegions s) = Some info"
  proof -
    let ?c = "clearTimeout (timeoutId info) s"
    have eq: "clearRegionHighlight regionName s = (True, restoreRegionMaterial regionName ?c)"
      using rec by (simp add: clearRegionHighlight_def)
    have p1: "fst (clearRegionHighlight regionName s) = True" using eq by simp
    have p2: "regionName \<notin> set (getHighlightedRegions (snd (clearRegionHighlight regionName s)))"
      using mapHas_mapDelete_same[of regionName "highlightedRegions s"]
      by (simp add: getHighlightedRegions_def clearRegionHighlight_frame mapHas_keys)
    have p3: "timeoutId info \<notin> fst ` set (timers (snd (clearRegionHighlight regionName s)))"
      by (auto simp: eq restoreRegionMaterial_frame clearTimeout_def)
    have p4: "find (\<lambda>t. fst t = timeoutId info) (timers s) = Some (timeoutId info, regionName, duration) \<longrightarrow>
         snd (clearRegionHighlight regionName s) = fireTimer (timeoutId info) s"
      by (simp add: eq fireTimer_def)
    have p5: "matColor (materials (snd (clearRegionHighlight regionName s)) r) =
           lerpColors (matColor (materials s r)) (matColor original) 0.02 \<and>
         matEmissive (materials (snd (clearRegionHighlight regionName s)) r) =
           lerpColors (matEmissive (materials s r)) (matEmissive original) 0.02 \<and>
         \<lparr> twMaterial = r, startColor = matColor (materials s r), endColor = matColor original,
           startEmissive = matEmissive (materials s r), endEmissive = matEmissive original,
           tween_t = 0.02 \<rparr> \<in> set (frames (snd (clearRegionHighlight regionName s)))"
      if h: "meshes info = mesh # rest" "topMaterial mesh = Some r"
         "originalMaterials info = original # origs"
         "matKind (materials s r) = MeshPhongMaterial" "matKind original = MeshPhongMaterial"
         "\<forall>m \<in> set rest. topMaterial m \<noteq> Some r"
      for mesh rest r original origs
    proof -
      let ?tw = "\<lparr> twMaterial = r, startColor = matColor (materials s r), endColor = matColor original,
           startEmissive = matEmissive (materials s r), endEmissive = matEmissive original,
           tween_t = 0 \<rparr>"
      let ?a = "animate ?tw ?c"
      have rm: "restoreMeshes (meshes info) (originalMaterials info) 0 ?c =
                restoreMeshes rest (original # origs) 1 ?a"
        using h by (simp add: clearTimeout_def Let_def)
      have m: "materials (restoreMeshes rest (original # origs) 1 ?a) r = materials ?a r"
        by (rule restoreMeshes_other_material[OF h(6)])
      have f: "?tw\<lparr> tween_t := 0.02 \<rparr> \<in> set (frames (restoreMeshes rest (original # origs) 1 ?a))"
        using restoreMeshes_frames_grow[of ?a rest "original # origs" 1]
        by (auto simp: animate_def Let_def)
      have rec': "mapGet regionName (highlightedRegions ?c) = Some info"
        using rec by (simp add: clearTimeout_def)
      have st: "snd (clearRegionHighlight regionName s) =
                (restoreMeshes rest (original # origs) 1 ?a)
                  \<lparr> highlightedRegions := mapDelete regionName
                      (highlightedRegions (restoreMeshes rest (original # origs) 1 ?a)) \<rparr>"
        using rec' rm by (simp add: eq restoreRegionMaterial_def Let_def)
      show ?thesis using m f
        by (simp add: st) (simp add: animate_def Let_def clearTimeout_def)
    qed
    show ?thesis using p1 p2 p3 p4 p5 by blast
  qed
  show ?thesis using none some by blast
qed


text \<open>
  Claim C6 on province \<open>A\<close>, whose two polygons each carry the material array
  \<open>[MeshPhongMaterial, ShaderMaterial]\<close>. Cancelling its highlight returns true, cancels
  the timer and removes the record, but starts a transition for the first polygon only:
  the second polygon's top material (material 2) is compared with the snapshot at index
  1, a clone of a side material, so its colour does not start to revert, neither within
  one animation step nor after any number of them.
\<close>

theorem cancel_second_mesh_never_reverts:
  "fst (clearRegionHighlight ''A'' highlightedA) = True \<and>
   getHighlightedRegions highlightedA = [''A''] \<and>
   getHighlightedRegions cancelledA = [] \<and>
   timers highlightedA = [(0, ''A'', 3000)] \<and>
   timers cancelledA = [] \<and>
   map twMaterial (frames cancelledA) = [0] \<and>
   matColor (materials highlightManager 2) = (1/10, 3/10, 1/2) \<and>
   matColor (materials highlightedA 2) = highlightColor \<and>
   matColor (materials (runFrames n cancelledA) 2) = highlightColor \<and>
   highlightColor \<noteq> (1/10, 3/10, 1/2)"
proof -
  have e: "fst (clearRegionHighlight ''A'' highlightedA) = True"
    "getHighlightedRegions highlightedA = [''A'']"
    "getHighlightedRegions cancelledA = []"
    "timers cancelledA = []"
    "map twMaterial (frames cancelledA) = [0]"
    "matColor (materials cancelledA 2) = highlightColor"
    by (simp_all add: cancelledA_def highlightedA_def scene_defs highlight_defs Let_def
        getHighlightedRegions_def mapKeys_def)
  have "twMaterial ` set (frames cancelledA) = set (map twMaterial (frames cancelledA))"
    by simp
  then have "2 \<notin> twMaterial ` set (frames cancelledA)"
    by (simp only: e(5)) simp
  then have "matColor (materials (runFrames n cancelledA) 2) = highlightColor"
    using runFrames_other_material[of 2 cancelledA n] e(6) by simp
  moreover have "highlightColor \<noteq> (1/10, 3/10, 1/2)"
    by (simp add: highlightColor_def setHex_def)
  ultimately show ?thesis
    using e by (simp add: highlightedA_eval)
qed


end
